theory Spec2Isabelle
  imports Complex_Main
begin

section \<open>Data model (types.ts)\<close>

text \<open>
  A JavaScript number is modelled as a real: arithmetic is exact, and a division agrees
  with the source only where the divisor is not zero (the source yields Infinity or NaN
  there), so every property that goes through the pixel conversion is stated for a
  surface of positive width and height.

  The source never assigns to an element of an existing array or to a property of an
  existing object: every update builds a new array or object (spread, \<open>filter\<close>,
  \<open>map\<close>). Arrays and objects are therefore modelled as values, except where a
  property speaks of copies and sharing: the section on the explicit store gives the
  handlers of the editing session over addresses.
\<close>

text \<open>\<open>Annotation.type\<close>: the union \<open>'box' | 'arrow'\<close>.\<close>

datatype annotation_type = Box | Arrow

text \<open>\<open>Annotation.coords\<close>: \<open>[ymin, xmin, ymax, xmax]\<close> or \<open>[y1, x1, y2, x2]\<close>.\<close>

type_synonym coords4 = "real \<times> real \<times> real \<times> real"

record annotation =
  ann_type :: annotation_type
  coords :: coords4

datatype severity = High | Medium | Low

text \<open>
  \<open>Issue\<close>. The two legacy boxes are optional and are whatever array the collaborator
  sent; \<open>annotationType\<close> is optional.
\<close>

record issue =
  issue_id :: string
  title :: string
  description :: string
  box_2d :: "real list option"
  design_box_2d :: "real list option"
  liveAnnotations :: "annotation list"
  designAnnotations :: "annotation list"
  designReference :: string
  liveObservation :: string
  suggestion :: string
  severity :: severity
  annotationType :: "annotation_type option"

text \<open>\<open>Partial<Issue>\<close>, the type of the edit buffer: every field may be absent.\<close>

record edit_form =
  form_id :: "string option"
  form_title :: "string option"
  form_description :: "string option"
  form_box_2d :: "real list option"
  form_design_box_2d :: "real list option"
  form_liveAnnotations :: "annotation list option"
  form_designAnnotations :: "annotation list option"
  form_designReference :: "string option"
  form_liveObservation :: "string option"
  form_suggestion :: "string option"
  form_severity :: "severity option"
  form_annotationType :: "annotation_type option"

text \<open>The empty object \<open>{}\<close> as a \<open>Partial<Issue>\<close>.\<close>

definition emptyForm :: edit_form where
  "emptyForm =
     \<lparr>form_id = None, form_title = None, form_description = None, form_box_2d = None,
      form_design_box_2d = None, form_liveAnnotations = None,
      form_designAnnotations = None, form_designReference = None,
      form_liveObservation = None, form_suggestion = None, form_severity = None,
      form_annotationType = None\<rparr>"

text \<open>The image side \<open>'design' | 'live'\<close>.\<close>

datatype side = Design | Live

section \<open>Component state (ReportDisplay, part\_000 lines 21-35)\<close>

text \<open>
  \<open>dragStart\<close> is \<open>{x, y, type}\<close>, \<open>currentDrag\<close> is \<open>{x, y}\<close>,
  \<open>hoveredAnnotation\<close> is \<open>{id, index, type}\<close>.
\<close>

record state =
  issues :: "issue list"
  hoveredIssueId :: "string option"
  selectedIssueId :: "string option"
  hoveredAnnotation :: "(string \<times> nat \<times> side) option"
  editingIssueId :: "string option"
  editForm :: edit_form
  dragStart :: "(real \<times> real \<times> side) option"
  currentDrag :: "(real \<times> real) option"

text \<open>
  JavaScript truthiness of a \<open>string | null\<close>: \<open>null\<close> and the empty string are
  falsy. The source tests \<open>editingIssueId\<close> this way (\<open>!editingIssueId\<close>,
  \<open>editingIssueId && ...\<close>).
\<close>

definition truthy :: "string option \<Rightarrow> bool" where
  "truthy s = (case s of None \<Rightarrow> False | Some v \<Rightarrow> v \<noteq> [])"

text \<open>
  \<open>getBoundingClientRect()\<close> of the event's \<open>currentTarget\<close>, and the mouse event
  with it.
\<close>

record rect =
  rect_left :: real
  rect_top :: real
  width :: real
  height :: real

record mouse_event =
  clientX :: real
  clientY :: real
  boundingRect :: rect

text \<open>
  The state variables are \<open>const\<close> bindings of one render
  (\<open>const [issues, setIssues] = useState(...)\<close>, lines 21-35), and the handlers are
  closures of that render: whatever a handler reads from \<open>issues\<close>,
  \<open>editingIssueId\<close> or \<open>editForm\<close> is the value of the render, also after the
  handler has called a setter. A setter queues an update for the next render:
  \<open>setX(v)\<close> replaces the pending value of \<open>X\<close>, so the last such call of a handler
  wins, and \<open>setX(prev => f(prev))\<close> applies \<open>f\<close> to the pending value.

  The handlers below take the state of the render and return the state of the next
  render. The two handlers that other handlers call (\<open>cancelEdit\<close>, \<open>startEdit\<close>)
  take the render's state \<open>snap\<close>, which every read sees, and the pending state
  \<open>pend\<close> that the setters called so far have produced, on which their own setters act.
\<close>

section \<open>Drawing (part\_000 lines 113-213)\<close>

text \<open>\<open>a || []\<close> on an optional array.\<close>

definition orEmpty :: "'a list option \<Rightarrow> 'a list" where
  "orEmpty a = (case a of None \<Rightarrow> [] | Some xs \<Rightarrow> xs)"

text \<open>\<open>handleMouseDown\<close> (lines 113-123).\<close>

definition handleMouseDown :: "mouse_event \<Rightarrow> side \<Rightarrow> state \<Rightarrow> state" where
  "handleMouseDown e ty st =
     (if \<not> truthy (editingIssueId st) then st
      else
        let r = boundingRect e;
            x = clientX e - rect_left r;
            y = clientY e - rect_top r
        in st\<lparr>dragStart := Some (x, y, ty), currentDrag := Some (x, y)\<rparr>)"

text \<open>\<open>handleMouseMove\<close> (lines 125-137).\<close>

definition handleMouseMove :: "mouse_event \<Rightarrow> state \<Rightarrow> state" where
  "handleMouseMove e st =
     (case dragStart st of
        None \<Rightarrow> st
      | Some ds \<Rightarrow>
          let r = boundingRect e;
              x = clientX e - rect_left r;
              y = clientY e - rect_top r;
              clampedX = max 0 (min x (width r));
              clampedY = max 0 (min y (height r))
          in st\<lparr>currentDrag := Some (clampedX, clampedY)\<rparr>)"

text \<open>
  \<open>handleMouseUp\<close> (lines 139-198). The annotation kind is
  \<open>editForm.annotationType || 'box'\<close>, read from the render's state; the append is a
  functional update of the buffer.
\<close>

definition handleMouseUp :: "mouse_event \<Rightarrow> state \<Rightarrow> state" where
  "handleMouseUp e st =
     (case (dragStart st, currentDrag st) of
        (Some (rawX1, rawY1, ty), Some (rawX2, rawY2)) \<Rightarrow>
          if \<bar>rawX1 - rawX2\<bar> < 5 \<and> \<bar>rawY1 - rawY2\<bar> < 5
          then st\<lparr>dragStart := None, currentDrag := None\<rparr>
          else
            let r = boundingRect e;
                startX = (rawX1 / width r) * 1000;
                startY = (rawY1 / height r) * 1000;
                endX = (rawX2 / width r) * 1000;
                endY = (rawY2 / height r) * 1000;
                annType = (case form_annotationType (editForm st) of
                             None \<Rightarrow> Box | Some t \<Rightarrow> t);
                newCoords =
                  (if annType = Arrow then (startY, startX, endY, endX)
                   else (min startY endY, min startX endX, max startY endY, max startX endX));
                newAnnotation = \<lparr>ann_type = annType, coords = newCoords\<rparr>;
                prev = editForm st;
                form' =
                  (if ty = Design
                   then prev\<lparr>form_designAnnotations :=
                          Some (orEmpty (form_designAnnotations prev) @ [newAnnotation])\<rparr>
                   else prev\<lparr>form_liveAnnotations :=
                          Some (orEmpty (form_liveAnnotations prev) @ [newAnnotation])\<rparr>)
            in st\<lparr>editForm := form', dragStart := None, currentDrag := None\<rparr>
      | _ \<Rightarrow> st)"

text \<open>The \<open>onMouseLeave\<close> handler of both surfaces (lines 488 and 557).\<close>

definition handleMouseLeave :: "state \<Rightarrow> state" where
  "handleMouseLeave st =
     (case dragStart st of
        None \<Rightarrow> st
      | Some ds \<Rightarrow> st\<lparr>dragStart := None, currentDrag := None\<rparr>)"

text \<open>\<open>xs.filter((_, i) => i !== index)\<close>.\<close>

definition removeAt :: "nat \<Rightarrow> 'a list \<Rightarrow> 'a list" where
  "removeAt index xs = map snd (filter (\<lambda>p. fst p \<noteq> index) (enumerate 0 xs))"

text \<open>\<open>deleteAnnotation\<close> (lines 200-213).\<close>

definition deleteAnnotation :: "side \<Rightarrow> nat \<Rightarrow> state \<Rightarrow> state" where
  "deleteAnnotation ty index st =
     (let prev = editForm st;
          form' =
            (if ty = Design
             then prev\<lparr>form_designAnnotations :=
                    Some (removeAt index (orEmpty (form_designAnnotations prev)))\<rparr>
             else prev\<lparr>form_liveAnnotations :=
                    Some (removeAt index (orEmpty (form_liveAnnotations prev)))\<rparr>)
      in st\<lparr>editForm := form', hoveredAnnotation := None\<rparr>)"

section \<open>Editing (part\_000 lines 217-275 and the form controls, lines 664-703)\<close>

text \<open>The object spread \<open>{ ...issue }\<close> as a \<open>Partial<Issue>\<close>.\<close>

definition spreadIssue :: "issue \<Rightarrow> edit_form" where
  "spreadIssue i =
     \<lparr>form_id = Some (issue_id i), form_title = Some (title i),
      form_description = Some (description i), form_box_2d = box_2d i,
      form_design_box_2d = design_box_2d i,
      form_liveAnnotations = Some (liveAnnotations i),
      form_designAnnotations = Some (designAnnotations i),
      form_designReference = Some (designReference i),
      form_liveObservation = Some (liveObservation i),
      form_suggestion = Some (suggestion i), form_severity = Some (severity i),
      form_annotationType = annotationType i\<rparr>"

text \<open>
  One property of a spread \<open>{ ...i, ...f }\<close>: the value in \<open>f\<close> where \<open>f\<close> has the
  property, the value in \<open>i\<close> otherwise.
\<close>

definition orElse :: "'a option \<Rightarrow> 'a \<Rightarrow> 'a" where
  "orElse a d = (case a of None \<Rightarrow> d | Some v \<Rightarrow> v)"


text \<open>
  \<open>cancelEdit\<close> (lines 266-275). \<open>issues\<close> and \<open>editingIssueId\<close> are the render's;
  \<open>setIssues\<close> replaces the pending collection by a filter of the render's.
\<close>

definition cancelEdit :: "state \<Rightarrow> state \<Rightarrow> state" where
  "cancelEdit snap pend =
     (let originalIssue =
            find (\<lambda>i. Some (issue_id i) = editingIssueId snap) (issues snap);
          pend1 =
            (case originalIssue of
               None \<Rightarrow> pend
             | Some orig \<Rightarrow>
                 if length (liveAnnotations orig) = 0 \<and>
                    length (designAnnotations orig) = 0 \<and> title orig = ''New Issue''
                 then pend\<lparr>issues :=
                        filter (\<lambda>i. Some (issue_id i) \<noteq> editingIssueId snap) (issues snap)\<rparr>
                 else pend)
      in pend1\<lparr>editingIssueId := None, editForm := emptyForm\<rparr>)"

text \<open>\<open>startEdit\<close> (lines 217-231).\<close>

definition startEdit :: "state \<Rightarrow> state \<Rightarrow> issue \<Rightarrow> state" where
  "startEdit snap pend issue =
     (let pend1 =
            (if truthy (editingIssueId snap) \<and> editingIssueId snap \<noteq> Some (issue_id issue)
             then cancelEdit snap pend else pend)
      in pend1\<lparr>editingIssueId := Some (issue_id issue),
               editForm := (spreadIssue issue)
                 \<lparr>form_liveAnnotations := Some (liveAnnotations issue),
                  form_designAnnotations := Some (designAnnotations issue)\<rparr>,
               selectedIssueId := None\<rparr>)"

text \<open>
  \<open>createIssue\<close> (lines 233-249). \<open>newId\<close> is \<open>Date.now().toString()\<close>.
  \<open>setIssues([newIssue, ...issues])\<close> is queued first; \<open>startEdit\<close> then runs in the
  same render.
\<close>

definition createIssue :: "string \<Rightarrow> state \<Rightarrow> state" where
  "createIssue newId st =
     (let newIssue =
            \<lparr>issue_id = newId, title = ''New Issue'',
             description = ''Describe the issue...'', box_2d = None,
             design_box_2d = None, liveAnnotations = [], designAnnotations = [],
             designReference = ''Expected behavior...'',
             liveObservation = ''Observed behavior...'',
             suggestion = ''Suggested fix...'', severity = Medium,
             annotationType = Some Box\<rparr>;
          pend = st\<lparr>issues := newIssue # issues st\<rparr>
      in startEdit st pend newIssue)"

text \<open>
  \<open>deleteIssue\<close> (lines 251-257); \<open>confirmed\<close> is the answer of \<open>window.confirm\<close>.
\<close>

definition deleteIssue :: "string \<Rightarrow> bool \<Rightarrow> state \<Rightarrow> state" where
  "deleteIssue i confirmed st =
     (if confirmed
      then
        let pend = st\<lparr>issues := filter (\<lambda>j. issue_id j \<noteq> i) (issues st)\<rparr>
        in if editingIssueId st = Some i then cancelEdit st pend else pend
      else st)"


text \<open>
  The form controls of the issue under edit (lines 664, 671, 686, 694, 703): each is
  \<open>setEditForm({ ...editForm, field: value })\<close>.
\<close>

definition setAnnotationType :: "annotation_type \<Rightarrow> state \<Rightarrow> state" where
  "setAnnotationType t st = st\<lparr>editForm := (editForm st)\<lparr>form_annotationType := Some t\<rparr>\<rparr>"

definition setTitle :: "string \<Rightarrow> state \<Rightarrow> state" where
  "setTitle v st = st\<lparr>editForm := (editForm st)\<lparr>form_title := Some v\<rparr>\<rparr>"

definition setDescription :: "string \<Rightarrow> state \<Rightarrow> state" where
  "setDescription v st = st\<lparr>editForm := (editForm st)\<lparr>form_description := Some v\<rparr>\<rparr>"

definition setSeverity :: "severity \<Rightarrow> state \<Rightarrow> state" where
  "setSeverity v st = st\<lparr>editForm := (editForm st)\<lparr>form_severity := Some v\<rparr>\<rparr>"

text \<open>
  The events that act on the edit buffer during an editing session: the drawing
  handlers, the removal of an annotation and the form controls.
\<close>

datatype buffer_event =
    MouseDown mouse_event side
  | MouseMove mouse_event
  | MouseUp mouse_event
  | MouseLeave
  | DeleteAnnotation side nat
  | SetAnnotationType annotation_type
  | SetTitle string
  | SetDescription string
  | SetSeverity severity

fun bufferStep :: "state \<Rightarrow> buffer_event \<Rightarrow> state" where
  "bufferStep st (MouseDown e ty) = handleMouseDown e ty st"
| "bufferStep st (MouseMove e) = handleMouseMove e st"
| "bufferStep st (MouseUp e) = handleMouseUp e st"
| "bufferStep st MouseLeave = handleMouseLeave st"
| "bufferStep st (DeleteAnnotation ty index) = deleteAnnotation ty index st"
| "bufferStep st (SetAnnotationType t) = setAnnotationType t st"
| "bufferStep st (SetTitle v) = setTitle v st"
| "bufferStep st (SetDescription v) = setDescription v st"
| "bufferStep st (SetSeverity v) = setSeverity v st"

section \<open>Input adapter (geminiService.ts lines 100-110)\<close>

text \<open>
  One specific issue of the collaborator's parsed result, at its documented shape: a
  box is absent (or \<open>null\<close>) or an array of numbers of any length.
\<close>

record raw_issue =
  raw_id :: string
  raw_title :: string
  raw_description :: string
  raw_box_2d :: "real list option"
  raw_design_box_2d :: "real list option"
  raw_designReference :: string
  raw_liveObservation :: string
  raw_suggestion :: string
  raw_severity :: severity

text \<open>An array of four numbers read as the 4-tuple type of \<open>coords\<close>.\<close>

definition coordsOfArray :: "real list \<Rightarrow> coords4" where
  "coordsOfArray b = (b ! 0, b ! 1, b ! 2, b ! 3)"

text \<open>\<open>box && box.length === 4 ? [{ type: 'box', coords: box }] : []\<close>.\<close>

definition boxAnnotations :: "real list option \<Rightarrow> annotation list" where
  "boxAnnotations box =
     (case box of
        None \<Rightarrow> []
      | Some b \<Rightarrow>
          if length b = 4 then [\<lparr>ann_type = Box, coords = coordsOfArray b\<rparr>] else [])"

definition transformedIssues :: "raw_issue list \<Rightarrow> issue list" where
  "transformedIssues specificIssues =
     map (\<lambda>issue.
            \<lparr>issue_id = raw_id issue, title = raw_title issue,
             description = raw_description issue, box_2d = raw_box_2d issue,
             design_box_2d = raw_design_box_2d issue,
             liveAnnotations = boxAnnotations (raw_box_2d issue),
             designAnnotations = boxAnnotations (raw_design_box_2d issue),
             designReference = raw_designReference issue,
             liveObservation = raw_liveObservation issue,
             suggestion = raw_suggestion issue, severity = raw_severity issue,
             annotationType = Some Box\<rparr>)
         specificIssues"

section \<open>Rendering\<close>

text \<open>
  A box's inline style: \<open>display: none\<close>, or \<open>top\<close>, \<open>left\<close>, \<open>height\<close> and
  \<open>width\<close> in percent of the surface.
\<close>

datatype box_style = DisplayNone | Percent real real real real

text \<open>
  What a renderer produces for one annotation, geometry only: a line from
  \<open>(x1, y1)\<close> to \<open>(x2, y2)\<close> in the \<open>0 0 1000 1000\<close> view box, or a box with its style.
  Colours, classes, badges and event handlers are left out.
\<close>

datatype overlay = ArrowLine real real real real | BoxDiv box_style

text \<open>\<open>getStyleFromBox\<close> (part\_000 lines 59-70).\<close>

definition getStyleFromBox :: "coords4 \<Rightarrow> box_style" where
  "getStyleFromBox box =
     (case box of (ymin, xmin, ymax, xmax) \<Rightarrow>
        if ymin = 0 \<and> xmin = 0 \<and> ymax = 0 \<and> xmax = 0 then DisplayNone
        else Percent (ymin / 10) (xmin / 10) ((ymax - ymin) / 10) ((xmax - xmin) / 10))"

text \<open>
  \<open>renderAnnotation\<close> (part\_000 lines 281-429): \<open>None\<close> is the source's \<open>null\<close>.
  \<open>annotation.coords\<close> is always present and \<open>isVisible\<close> is the constant \<open>true\<close>.
\<close>

definition renderAnnotation :: "annotation \<Rightarrow> overlay option" where
  "renderAnnotation annotation =
     (case coords annotation of (c1, c2, c3, c4) \<Rightarrow>
        if c1 = 0 \<and> c2 = 0 \<and> c3 = 0 \<and> c4 = 0 then None
        else if ann_type annotation = Arrow
        then (case coords annotation of (y1, x1, y2, x2) \<Rightarrow> Some (ArrowLine x1 y1 x2 y2))
        else Some (BoxDiv (getStyleFromBox (coords annotation))))"

text \<open>
  The exported document's script (geminiService.ts lines 236-299 and 335-358):
  \<open>getStyle\<close>, \<open>createArrow\<close>, \<open>createBox\<close> and the loop over one side's annotations.
\<close>

definition getStyle :: "coords4 \<Rightarrow> box_style" where
  "getStyle box =
     (case box of (b0, b1, b2, b3) \<Rightarrow>
        if b0 = 0 \<and> b1 = 0 \<and> b2 = 0 \<and> b3 = 0 then DisplayNone
        else Percent (b0 / 10) (b1 / 10) ((b2 - b0) / 10) ((b3 - b1) / 10))"

definition createArrow :: "coords4 \<Rightarrow> overlay" where
  "createArrow box = (case box of (y1, x1, y2, x2) \<Rightarrow> ArrowLine x1 y1 x2 y2)"

definition createBox :: "coords4 \<Rightarrow> overlay" where
  "createBox box = BoxDiv (getStyle box)"

definition exportOverlays :: "annotation list \<Rightarrow> overlay list" where
  "exportOverlays anns =
     map (\<lambda>ann. if ann_type ann = Arrow then createArrow (coords ann)
                 else createBox (coords ann)) anns"

text \<open>
  \<open>getCropStyle\<close> (part\_000 lines 72-94). \<open>None\<close> is the empty style \<open>{}\<close>;
  \<open>cropX\<close> and \<open>cropY\<close> are the two percentages of \<open>backgroundPosition\<close>.
\<close>

record crop_style =
  backgroundImage :: string
  cropX :: real
  cropY :: real
  backgroundSize :: real

definition getCropStyle :: "issue \<Rightarrow> string option \<Rightarrow> side \<Rightarrow> real \<Rightarrow> crop_style option" where
  "getCropStyle issue imageSrc ty zoomLevel =
     (if \<not> truthy imageSrc then None
      else
        let annotations = (if ty = Design then designAnnotations issue
                           else liveAnnotations issue);
            box = (if length annotations > 0 then coords (annotations ! 0)
                   else (0, 0, 0, 0))
        in case box of (y1, x1, y2, x2) \<Rightarrow>
             let minY = min y1 y2; maxY = max y1 y2;
                 minX = min x1 x2; maxX = max x1 x2;
                 centerX = (minX + maxX) / 2 / 10;
                 centerY = (minY + maxY) / 2 / 10
             in Some \<lparr>backgroundImage = ''url('' @ orElse imageSrc [] @ '')'',
                      cropX = centerX, cropY = centerY, backgroundSize = zoomLevel\<rparr>)"

section \<open>The edit buffer over an explicit store\<close>

text \<open>
  For the properties that speak of copies and of sharing, arrays and annotation objects
  live in a store and are referred to by address. The handlers of the editing session
  are given again over that store, statement by statement as in the source. No statement
  of these handlers assigns to an element of an array or to a property of an object, so
  there is allocation and no update of a cell. The \<open>Issue\<close> objects and the buffer
  object hold strings, enumeration values and references; they are records of these.
\<close>

text \<open>
  A cell of the store: an array of annotations (references to annotation objects), an
  annotation object \<open>{ type, coords }\<close> (\<open>coords\<close> a reference to an array of
  numbers), or an array of numbers (a \<open>coords\<close> or a legacy box).
\<close>

datatype cell =
    AnnotationArray "nat list"
  | AnnotationObject annotation_type nat
  | NumberArray "real list"

text \<open>
  The store is the list of the cells allocated so far; an address is an index into it.
\<close>

type_synonym store = "cell list"


text \<open>
  The elements of the annotation array at an address (no elements where the address
  does not hold such an array, which a reference of the source never does).
\<close>

definition elements :: "store \<Rightarrow> nat \<Rightarrow> nat list" where
  "elements h a =
     (if a < length h then (case h ! a of AnnotationArray xs \<Rightarrow> xs | _ \<Rightarrow> []) else [])"


text \<open>
  An \<open>Issue\<close> object and the \<open>Partial<Issue>\<close> of the buffer: strings and enumeration
  values as they are, arrays by reference.
\<close>

record issue_ref =
  ref_id :: string
  ref_title :: string
  ref_description :: string
  ref_box_2d :: "nat option"
  ref_design_box_2d :: "nat option"
  ref_liveAnnotations :: nat
  ref_designAnnotations :: nat
  ref_designReference :: string
  ref_liveObservation :: string
  ref_suggestion :: string
  ref_severity :: severity
  ref_annotationType :: "annotation_type option"

record form_ref =
  fref_id :: "string option"
  fref_title :: "string option"
  fref_description :: "string option"
  fref_box_2d :: "nat option"
  fref_design_box_2d :: "nat option"
  fref_liveAnnotations :: "nat option"
  fref_designAnnotations :: "nat option"
  fref_designReference :: "string option"
  fref_liveObservation :: "string option"
  fref_suggestion :: "string option"
  fref_severity :: "severity option"
  fref_annotationType :: "annotation_type option"

definition emptyFormRef :: form_ref where
  "emptyFormRef =
     \<lparr>fref_id = None, fref_title = None, fref_description = None, fref_box_2d = None,
      fref_design_box_2d = None, fref_liveAnnotations = None,
      fref_designAnnotations = None, fref_designReference = None,
      fref_liveObservation = None, fref_suggestion = None, fref_severity = None,
      fref_annotationType = None\<rparr>"

text \<open>The state variables of the component, and the store.\<close>

record store_state =
  heap :: store
  s_issues :: "issue_ref list"
  s_hoveredIssueId :: "string option"
  s_selectedIssueId :: "string option"
  s_hoveredAnnotation :: "(string \<times> nat \<times> side) option"
  s_editingIssueId :: "string option"
  s_editForm :: form_ref
  s_dragStart :: "(real \<times> real \<times> side) option"
  s_currentDrag :: "(real \<times> real) option"


text \<open>
  \<open>cancelEdit\<close> (part\_000 lines 266-275): \<open>.length\<close> reads the arrays in the store.
\<close>

definition cancelEdit_store :: "store_state \<Rightarrow> store_state \<Rightarrow> store_state" where
  "cancelEdit_store snap pend =
     (let originalIssue =
            find (\<lambda>i. Some (ref_id i) = s_editingIssueId snap) (s_issues snap);
          pend1 =
            (case originalIssue of
               None \<Rightarrow> pend
             | Some orig \<Rightarrow>
                 if length (elements (heap pend) (ref_liveAnnotations orig)) = 0 \<and>
                    length (elements (heap pend) (ref_designAnnotations orig)) = 0 \<and>
                    ref_title orig = ''New Issue''
                 then pend\<lparr>s_issues :=
                        filter (\<lambda>i. Some (ref_id i) \<noteq> s_editingIssueId snap) (s_issues snap)\<rparr>
                 else pend)
      in pend1\<lparr>s_editingIssueId := None, s_editForm := emptyFormRef\<rparr>)"












section \<open>Auxiliary notions for the properties\<close>

text \<open>The initial values of the state variables (part\_000 lines 21-35).\<close>

definition initialState :: "issue list \<Rightarrow> state" where
  "initialState specificIssues =
     \<lparr>issues = specificIssues, hoveredIssueId = None, selectedIssueId = None,
      hoveredAnnotation = None, editingIssueId = None, editForm = emptyForm,
      dragStart = None, currentDrag = None\<rparr>"

text \<open>
  The buffer's annotations of one side as the surfaces read them (part\_000 lines 497
  and 566): \<open>editForm.designAnnotations || []\<close>, \<open>editForm.liveAnnotations || []\<close>.
\<close>

definition sideAnnotations :: "side \<Rightarrow> edit_form \<Rightarrow> annotation list" where
  "sideAnnotations ty f =
     (if ty = Design then orEmpty (form_designAnnotations f)
      else orEmpty (form_liveAnnotations f))"

text \<open>
  The state at pointer-up of a drag on side \<open>ty\<close> that started at pixel \<open>p\<close> and whose
  current position is pixel \<open>q\<close> (both \<open>(x, y)\<close>).
\<close>

definition drag :: "state \<Rightarrow> side \<Rightarrow> real \<times> real \<Rightarrow> real \<times> real \<Rightarrow> state" where
  "drag st ty p q = st\<lparr>dragStart := Some (fst p, snd p, ty), currentDrag := Some q\<rparr>"


text \<open>A normalized coordinate lies in \<open>[0, 1000]\<close>; an annotation is in range when all four do.\<close>

definition inRange :: "annotation \<Rightarrow> bool" where
  "inRange a =
     (case coords a of (c0, c1, c2, c3) \<Rightarrow>
        0 \<le> c0 \<and> c0 \<le> 1000 \<and> 0 \<le> c1 \<and> c1 \<le> 1000 \<and>
        0 \<le> c2 \<and> c2 \<le> 1000 \<and> 0 \<le> c3 \<and> c3 \<le> 1000)"

subsection \<open>Concrete inputs\<close>

definition ex_event :: mouse_event where
  "ex_event =
     \<lparr>clientX = 310, clientY = 170,
      boundingRect = \<lparr>rect_left = 10, rect_top = 20, width = 400, height = 200\<rparr>\<rparr>"

definition ex_raw :: raw_issue where
  "ex_raw =
     \<lparr>raw_id = ''1'', raw_title = ''Button colour'', raw_description = ''Wrong colour'',
      raw_box_2d = Some [100, 200, 300, 400],
      raw_design_box_2d = Some [110, 210, 310, 410],
      raw_designReference = ''Blue button'', raw_liveObservation = ''Green button'',
      raw_suggestion = ''color: blue'', raw_severity = High\<rparr>"

definition ex_issue :: issue where
  "ex_issue =
     \<lparr>issue_id = ''1'', title = ''Button colour'', description = ''Wrong colour'',
      box_2d = Some [100, 200, 300, 400], design_box_2d = Some [110, 210, 310, 410],
      liveAnnotations = [\<lparr>ann_type = Box, coords = (100, 200, 300, 400)\<rparr>],
      designAnnotations = [\<lparr>ann_type = Box, coords = (110, 210, 310, 410)\<rparr>],
      designReference = ''Blue button'', liveObservation = ''Green button'',
      suggestion = ''color: blue'', severity = High, annotationType = Some Box\<rparr>"

text \<open>The example issue, under edit from the initial state.\<close>

definition ex_editing :: state where
  "ex_editing = startEdit (initialState [ex_issue]) (initialState [ex_issue]) ex_issue"

text \<open>The issue that \<open>createIssue\<close> synthesizes for the identifier \<open>2\<close>.\<close>

definition ex_new :: issue where
  "ex_new =
     \<lparr>issue_id = ''2'', title = ''New Issue'',
      description = ''Describe the issue...'', box_2d = None,
      design_box_2d = None, liveAnnotations = [], designAnnotations = [],
      designReference = ''Expected behavior...'',
      liveObservation = ''Observed behavior...'',
      suggestion = ''Suggested fix...'', severity = Medium,
      annotationType = Some Box\<rparr>"


text \<open>
  A drag in progress on side \<open>ty\<close> whose start and current positions lie on a surface of
  \<open>w\<close> by \<open>h\<close> pixels.
\<close>

definition dragOnSurface :: "real \<Rightarrow> real \<Rightarrow> side \<Rightarrow> state \<Rightarrow> bool" where
  "dragOnSurface w h ty s =
     (case (dragStart s, currentDrag s) of
        (Some (x0, y0, ty0), Some (x, y)) \<Rightarrow>
          ty0 = ty \<and> 0 \<le> x0 \<and> x0 \<le> w \<and> 0 \<le> y0 \<and> y0 \<le> h \<and>
          0 \<le> x \<and> x \<le> w \<and> 0 \<le> y \<and> y \<le> h
      | _ \<Rightarrow> False)"





section \<open>Properties\<close>

subsection \<open>Shared facts about the handlers\<close>

lemmas handler_defs =
  handleMouseDown_def handleMouseMove_def handleMouseUp_def handleMouseLeave_def
  deleteAnnotation_def setAnnotationType_def setTitle_def setDescription_def setSeverity_def

lemma bufferStep_issues: "issues (bufferStep st ev) = issues st"
  by (cases ev) (auto simp: handler_defs Let_def split: option.splits prod.splits)

lemma bufferStep_editingIssueId: "editingIssueId (bufferStep st ev) = editingIssueId st"
  by (cases ev) (auto simp: handler_defs Let_def split: option.splits prod.splits)



lemma foldl_bufferStep_issues: "issues (foldl bufferStep st evs) = issues st"
  by (induction evs arbitrary: st) (simp_all add: bufferStep_issues)

lemma foldl_bufferStep_editingIssueId:
  "editingIssueId (foldl bufferStep st evs) = editingIssueId st"
  by (induction evs arbitrary: st) (simp_all add: bufferStep_editingIssueId)



lemma startEdit_editingIssueId:
  "editingIssueId (startEdit snap pend issue) = Some (issue_id issue)"
  by (simp add: startEdit_def Let_def)

lemma startEdit_editForm: "editForm (startEdit snap pend issue) = spreadIssue issue"
  by (simp add: startEdit_def Let_def spreadIssue_def)


lemma startEdit_issues_noedit:
  "\<not> truthy (editingIssueId snap) \<or> editingIssueId snap = Some (issue_id issue) \<Longrightarrow>
   issues (startEdit snap pend issue) = issues pend"
  by (auto simp: startEdit_def Let_def)

lemma cancelEdit_resets:
  "editingIssueId (cancelEdit snap pend) = None \<and> editForm (cancelEdit snap pend) = emptyForm"
  by (simp add: cancelEdit_def Let_def split: option.splits)

lemma cancelEdit_issues:
  "issues (cancelEdit snap pend) =
     (case find (\<lambda>i. Some (issue_id i) = editingIssueId snap) (issues snap) of
        None \<Rightarrow> issues pend
      | Some orig \<Rightarrow>
          if liveAnnotations orig = [] \<and> designAnnotations orig = [] \<and>
             title orig = ''New Issue''
          then filter (\<lambda>i. Some (issue_id i) \<noteq> editingIssueId snap) (issues snap)
          else issues pend)"
  by (simp add: cancelEdit_def Let_def split: option.splits)

text \<open>What a completed drag appends to the buffer, for either kind.\<close>

lemma handleMouseUp_drag:
  assumes "\<not> (\<bar>x1 - x2\<bar> < 5 \<and> \<bar>y1 - y2\<bar> < 5)"
  shows "sideAnnotations ty (editForm (handleMouseUp e (drag st ty (x1, y1) (x2, y2)))) =
         sideAnnotations ty (editForm st) @
           [\<lparr>ann_type =
                (case form_annotationType (editForm st) of None \<Rightarrow> Box | Some t \<Rightarrow> t),
             coords =
               (if form_annotationType (editForm st) = Some Arrow
                then (y1 / height (boundingRect e) * 1000,
                      x1 / width (boundingRect e) * 1000,
                      y2 / height (boundingRect e) * 1000,
                      x2 / width (boundingRect e) * 1000)
                else (min (y1 / height (boundingRect e) * 1000)
                          (y2 / height (boundingRect e) * 1000),
                      min (x1 / width (boundingRect e) * 1000)
                          (x2 / width (boundingRect e) * 1000),
                      max (y1 / height (boundingRect e) * 1000)
                          (y2 / height (boundingRect e) * 1000),
                      max (x1 / width (boundingRect e) * 1000)
                          (x2 / width (boundingRect e) * 1000)))\<rparr>]"
  using assms
  by (cases ty; cases "form_annotationType (editForm st)")
     (auto simp: handleMouseUp_def drag_def sideAnnotations_def orEmpty_def Let_def)

lemma not_arrow_box:
  "form_annotationType f \<noteq> Some Arrow \<Longrightarrow>
   (case form_annotationType f of None \<Rightarrow> Box | Some t \<Rightarrow> t) = Box"
  by (cases "form_annotationType f") (auto intro: annotation_type.exhaust)

lemma min_scaled: "0 < (c::real) \<Longrightarrow> min (a / c * 1000) (b / c * 1000) = min a b / c * 1000"
  by (simp add: min_def divide_le_cancel)

lemma max_scaled: "0 < (c::real) \<Longrightarrow> max (a / c * 1000) (b / c * 1000) = max a b / c * 1000"
  by (simp add: max_def divide_le_cancel)

text \<open>On a surface of positive size a completed box drag appends the scaled corners.\<close>

lemma box_drag_coords:
  assumes "0 < width (boundingRect e)" and "0 < height (boundingRect e)"
      and "form_annotationType (editForm st) \<noteq> Some Arrow"
      and "\<not> (\<bar>x1 - x2\<bar> < 5 \<and> \<bar>y1 - y2\<bar> < 5)"
  shows "sideAnnotations ty (editForm (handleMouseUp e (drag st ty (x1, y1) (x2, y2)))) =
           sideAnnotations ty (editForm st) @
             [\<lparr>ann_type = Box,
               coords = (min y1 y2 / height (boundingRect e) * 1000,
                         min x1 x2 / width (boundingRect e) * 1000,
                         max y1 y2 / height (boundingRect e) * 1000,
                         max x1 x2 / width (boundingRect e) * 1000)\<rparr>]"
  using handleMouseUp_drag [OF assms(4), of ty e st] assms(3) not_arrow_box [OF assms(3)]
    min_scaled [OF assms(1)] min_scaled [OF assms(2)]
    max_scaled [OF assms(1)] max_scaled [OF assms(2)]
  by simp

lemma handleMouseUp_swap:
  "form_annotationType (editForm st) \<noteq> Some Arrow \<Longrightarrow>
   handleMouseUp e (drag st ty (xb, yb) (xa, ya)) =
   handleMouseUp e (drag st ty (xa, ya) (xb, yb))"
  by (cases "form_annotationType (editForm st)")
     (auto simp: handleMouseUp_def drag_def Let_def min.commute max.commute abs_minus_commute)

lemma handleMouseUp_flip:
  "form_annotationType (editForm st) \<noteq> Some Arrow \<Longrightarrow>
   handleMouseUp e (drag st ty (xb, ya) (xa, yb)) =
   handleMouseUp e (drag st ty (xa, ya) (xb, yb))"
  by (cases "form_annotationType (editForm st)")
     (auto simp: handleMouseUp_def drag_def Let_def min.commute max.commute abs_minus_commute)

lemma ex_editing_kind: "form_annotationType (editForm ex_editing) = Some Box"
  by (simp add: ex_editing_def startEdit_editForm spreadIssue_def ex_issue_def)

lemma ex_editing_live:
  "sideAnnotations Live (editForm ex_editing) = [\<lparr>ann_type = Box, coords = (100, 200, 300, 400)\<rparr>]"
  by (simp add: ex_editing_def startEdit_editForm spreadIssue_def ex_issue_def
      sideAnnotations_def orEmpty_def)

lemma ex_event_size:
  "width (boundingRect ex_event) = 400" "height (boundingRect ex_event) = 200"
  by (simp_all add: ex_event_def)

subsection \<open>Coordinate conversion\<close>

text \<open>
  Claim C1. On a surface of positive width and height, a completed box drag between the
  pixels \<open>(x1, y1)\<close> and \<open>(x2, y2)\<close> stores normalized coordinates from which
  \<open>getStyleFromBox\<close> computes percentages (top \<open>t\<close>, left \<open>l\<close>, height \<open>hh\<close>,
  width \<open>ww\<close>) that give back the relative positions of both corners: \<open>l / 100\<close> and
  \<open>t / 100\<close> are the relative position of the upper left corner, \<open>(l + ww) / 100\<close> and
  \<open>(t + hh) / 100\<close> that of the lower right corner, whatever the size of the surface.
  Over the reals the round trip is exact.
\<close>

theorem pixel_round_trip:
  assumes "0 < width (boundingRect e)" and "0 < height (boundingRect e)"
      and "form_annotationType (editForm st) \<noteq> Some Arrow"
      and "\<not> (\<bar>x1 - x2\<bar> < 5 \<and> \<bar>y1 - y2\<bar> < 5)"
  shows "\<exists>t l hh ww.
           getStyleFromBox (coords (last (sideAnnotations ty
             (editForm (handleMouseUp e (drag st ty (x1, y1) (x2, y2))))))) =
             Percent t l hh ww \<and>
           l / 100 = min x1 x2 / width (boundingRect e) \<and>
           t / 100 = min y1 y2 / height (boundingRect e) \<and>
           (l + ww) / 100 = max x1 x2 / width (boundingRect e) \<and>
           (t + hh) / 100 = max y1 y2 / height (boundingRect e)"
proof -
  let ?w = "width (boundingRect e)" and ?h = "height (boundingRect e)"
  let ?c = "(min y1 y2 / ?h * 1000, min x1 x2 / ?w * 1000,
             max y1 y2 / ?h * 1000, max x1 x2 / ?w * 1000)"
  have c: "coords (last (sideAnnotations ty
             (editForm (handleMouseUp e (drag st ty (x1, y1) (x2, y2)))))) = ?c"
    by (simp add: box_drag_coords [OF assms])
  have "x1 \<noteq> x2 \<or> y1 \<noteq> y2"
    using assms(4) by auto
  then have "min x1 x2 \<noteq> max x1 x2 \<or> min y1 y2 \<noteq> max y1 y2"
    by auto
  then have nz: "\<not> (min y1 y2 / ?h * 1000 = 0 \<and> min x1 x2 / ?w * 1000 = 0 \<and>
                    max y1 y2 / ?h * 1000 = 0 \<and> max x1 x2 / ?w * 1000 = 0)"
    using assms(1,2) by auto
  define t where "t = min y1 y2 / ?h * 1000 / 10"
  define l where "l = min x1 x2 / ?w * 1000 / 10"
  define hh where "hh = (max y1 y2 / ?h * 1000 - min y1 y2 / ?h * 1000) / 10"
  define ww where "ww = (max x1 x2 / ?w * 1000 - min x1 x2 / ?w * 1000) / 10"
  have style: "getStyleFromBox ?c = Percent t l hh ww"
    using nz unfolding getStyleFromBox_def t_def l_def hh_def ww_def
    by (simp only: prod.case if_False if_not_P)
  have left: "l / 100 = min x1 x2 / ?w"
    by (simp add: l_def)
  have top: "t / 100 = min y1 y2 / ?h"
    by (simp add: t_def)
  have right: "(l + ww) / 100 = max x1 x2 / ?w"
    using assms(1) by (simp add: l_def ww_def field_simps)
  have bottom: "(t + hh) / 100 = max y1 y2 / ?h"
    using assms(2) by (simp add: t_def hh_def field_simps)
  from c style left top right bottom show ?thesis
    by metis
qed

text \<open>
  A drag from pixel \<open>(300, 150)\<close> to pixel \<open>(100, 50)\<close> on a surface of 400 by 200
  pixels: the box covers the middle half of the surface in both directions.
\<close>

theorem pixel_round_trip_witness:
  "getStyleFromBox (coords (last (sideAnnotations Live
      (editForm (handleMouseUp ex_event (drag ex_editing Live (300, 150) (100, 50))))))) =
   Percent 25 25 50 50"
proof -
  have far: "\<not> (\<bar>(300::real) - 100\<bar> < 5 \<and> \<bar>(150::real) - 50\<bar> < 5)"
    by simp
  have nonarrow: "form_annotationType (editForm ex_editing) \<noteq> Some Arrow"
    by (simp add: ex_editing_kind)
  from pixel_round_trip [of ex_event ex_editing 300 100 150 50 Live, OF _ _ nonarrow far]
  obtain t l hh ww where
    "getStyleFromBox (coords (last (sideAnnotations Live
      (editForm (handleMouseUp ex_event (drag ex_editing Live (300, 150) (100, 50))))))) =
     Percent t l hh ww"
    and "l / 100 = min 300 100 / 400" and "t / 100 = min 150 50 / 200"
    and "(l + ww) / 100 = max 300 100 / 400" and "(t + hh) / 100 = max 150 50 / 200"
    by (auto simp: ex_event_size)
  then show ?thesis by simp
qed

subsection \<open>Construction of annotations by a drag\<close>

text \<open>
  Claim C2. On a surface of positive size, a completed drag between the corners
  \<open>(xa, ya)\<close> and \<open>(xb, yb)\<close>, while the buffer's annotation kind is not the arrow,
  appends one box whose coordinates are \<open>[yMin, xMin, yMax, xMax]\<close> of the two
  corners, normalized; its first coordinate is at most its third and its second at most
  its fourth; and the four drag directions over the same two corners end in the same
  state, hence in the same coordinates.
\<close>

theorem box_drag_ordered:
  assumes "0 < width (boundingRect e)" and "0 < height (boundingRect e)"
      and "form_annotationType (editForm st) \<noteq> Some Arrow"
      and "\<not> (\<bar>xa - xb\<bar> < 5 \<and> \<bar>ya - yb\<bar> < 5)"
  shows "sideAnnotations ty (editForm (handleMouseUp e (drag st ty (xa, ya) (xb, yb)))) =
           sideAnnotations ty (editForm st) @
             [\<lparr>ann_type = Box,
               coords = (min ya yb / height (boundingRect e) * 1000,
                         min xa xb / width (boundingRect e) * 1000,
                         max ya yb / height (boundingRect e) * 1000,
                         max xa xb / width (boundingRect e) * 1000)\<rparr>] \<and>
         min ya yb / height (boundingRect e) * 1000 \<le> max ya yb / height (boundingRect e) * 1000 \<and>
         min xa xb / width (boundingRect e) * 1000 \<le> max xa xb / width (boundingRect e) * 1000 \<and>
         handleMouseUp e (drag st ty (xb, yb) (xa, ya)) =
           handleMouseUp e (drag st ty (xa, ya) (xb, yb)) \<and>
         handleMouseUp e (drag st ty (xb, ya) (xa, yb)) =
           handleMouseUp e (drag st ty (xa, ya) (xb, yb)) \<and>
         handleMouseUp e (drag st ty (xa, yb) (xb, ya)) =
           handleMouseUp e (drag st ty (xa, ya) (xb, yb))"
proof -
  let ?h = "height (boundingRect e)" and ?w = "width (boundingRect e)"
  have appended:
    "sideAnnotations ty (editForm (handleMouseUp e (drag st ty (xa, ya) (xb, yb)))) =
       sideAnnotations ty (editForm st) @
         [\<lparr>ann_type = Box,
           coords = (min ya yb / ?h * 1000, min xa xb / ?w * 1000,
                     max ya yb / ?h * 1000, max xa xb / ?w * 1000)\<rparr>]"
    by (rule box_drag_coords [OF assms])
  have "min ya yb \<le> max ya yb"
    by simp
  then have ordered_y: "min ya yb / ?h * 1000 \<le> max ya yb / ?h * 1000"
    using assms(2) by (simp add: divide_right_mono)
  have "min xa xb \<le> max xa xb"
    by simp
  then have ordered_x: "min xa xb / ?w * 1000 \<le> max xa xb / ?w * 1000"
    using assms(1) by (simp add: divide_right_mono)
  have rev: "handleMouseUp e (drag st ty (xb, yb) (xa, ya)) =
             handleMouseUp e (drag st ty (xa, ya) (xb, yb))"
    by (rule handleMouseUp_swap [OF assms(3)])
  have flip: "handleMouseUp e (drag st ty (xb, ya) (xa, yb)) =
              handleMouseUp e (drag st ty (xa, ya) (xb, yb))"
    by (rule handleMouseUp_flip [OF assms(3)])
  have flip2: "handleMouseUp e (drag st ty (xa, yb) (xb, ya)) =
               handleMouseUp e (drag st ty (xa, ya) (xb, yb))"
    using handleMouseUp_swap [OF assms(3), of e ty xa yb xb ya] flip by simp
  from appended ordered_y ordered_x rev flip flip2 show ?thesis
    by (intro conjI)
qed

text \<open>
  The four drags over the corners \<open>(100, 50)\<close> and \<open>(300, 150)\<close> of a surface of 400 by
  200 pixels all append the box \<open>[250, 250, 750, 750]\<close>.
\<close>

theorem box_drag_ordered_witness:
  "sideAnnotations Live
     (editForm (handleMouseUp ex_event (drag ex_editing Live (100, 50) (300, 150)))) =
     [\<lparr>ann_type = Box, coords = (100, 200, 300, 400)\<rparr>,
      \<lparr>ann_type = Box, coords = (250, 250, 750, 750)\<rparr>] \<and>
   handleMouseUp ex_event (drag ex_editing Live (300, 150) (100, 50)) =
     handleMouseUp ex_event (drag ex_editing Live (100, 50) (300, 150)) \<and>
   handleMouseUp ex_event (drag ex_editing Live (300, 50) (100, 150)) =
     handleMouseUp ex_event (drag ex_editing Live (100, 50) (300, 150)) \<and>
   handleMouseUp ex_event (drag ex_editing Live (100, 150) (300, 50)) =
     handleMouseUp ex_event (drag ex_editing Live (100, 50) (300, 150))"
proof -
  have far: "\<not> (\<bar>(100::real) - 300\<bar> < 5 \<and> \<bar>(50::real) - 150\<bar> < 5)"
    by simp
  have nonarrow: "form_annotationType (editForm ex_editing) \<noteq> Some Arrow"
    by (simp add: ex_editing_kind)
  have size: "0 < width (boundingRect ex_event)" "0 < height (boundingRect ex_event)"
    by (simp_all add: ex_event_size)
  from box_drag_ordered [OF size nonarrow far, of Live] show ?thesis
    by (simp add: ex_editing_live ex_event_size)
qed

text \<open>
  Claim C3. On a surface of positive size, a completed drag from \<open>(x1, y1)\<close> to
  \<open>(x2, y2)\<close>, while the buffer's annotation kind is the arrow, appends an arrow whose
  coordinates are exactly \<open>[startY, startX, endY, endX]\<close>, normalized and not reordered;
  the reverse drag appends the reversed tuple, which is a different tuple.
\<close>

theorem arrow_drag_directed:
  assumes "0 < width (boundingRect e)" and "0 < height (boundingRect e)"
      and "form_annotationType (editForm st) = Some Arrow"
      and "\<not> (\<bar>x1 - x2\<bar> < 5 \<and> \<bar>y1 - y2\<bar> < 5)"
  shows "sideAnnotations ty (editForm (handleMouseUp e (drag st ty (x1, y1) (x2, y2)))) =
           sideAnnotations ty (editForm st) @
             [\<lparr>ann_type = Arrow,
               coords = (y1 / height (boundingRect e) * 1000,
                         x1 / width (boundingRect e) * 1000,
                         y2 / height (boundingRect e) * 1000,
                         x2 / width (boundingRect e) * 1000)\<rparr>] \<and>
         sideAnnotations ty (editForm (handleMouseUp e (drag st ty (x2, y2) (x1, y1)))) =
           sideAnnotations ty (editForm st) @
             [\<lparr>ann_type = Arrow,
               coords = (y2 / height (boundingRect e) * 1000,
                         x2 / width (boundingRect e) * 1000,
                         y1 / height (boundingRect e) * 1000,
                         x1 / width (boundingRect e) * 1000)\<rparr>] \<and>
         (y1 / height (boundingRect e) * 1000, x1 / width (boundingRect e) * 1000,
          y2 / height (boundingRect e) * 1000, x2 / width (boundingRect e) * 1000) \<noteq>
         (y2 / height (boundingRect e) * 1000, x2 / width (boundingRect e) * 1000,
          y1 / height (boundingRect e) * 1000, x1 / width (boundingRect e) * 1000)"
proof -
  have fwd: "sideAnnotations ty (editForm (handleMouseUp e (drag st ty (x1, y1) (x2, y2)))) =
           sideAnnotations ty (editForm st) @
             [\<lparr>ann_type = Arrow,
               coords = (y1 / height (boundingRect e) * 1000,
                         x1 / width (boundingRect e) * 1000,
                         y2 / height (boundingRect e) * 1000,
                         x2 / width (boundingRect e) * 1000)\<rparr>]"
    using handleMouseUp_drag [OF assms(4), of ty e st] assms(3) by simp
  have rev_far: "\<not> (\<bar>x2 - x1\<bar> < 5 \<and> \<bar>y2 - y1\<bar> < 5)"
    using assms(4) by (simp add: abs_minus_commute)
  have bwd: "sideAnnotations ty (editForm (handleMouseUp e (drag st ty (x2, y2) (x1, y1)))) =
           sideAnnotations ty (editForm st) @
             [\<lparr>ann_type = Arrow,
               coords = (y2 / height (boundingRect e) * 1000,
                         x2 / width (boundingRect e) * 1000,
                         y1 / height (boundingRect e) * 1000,
                         x1 / width (boundingRect e) * 1000)\<rparr>]"
    using handleMouseUp_drag [OF rev_far, of ty e st] assms(3) by simp
  have "x1 \<noteq> x2 \<or> y1 \<noteq> y2"
    using assms(4) by auto
  then have differ:
    "(y1 / height (boundingRect e) * 1000, x1 / width (boundingRect e) * 1000,
      y2 / height (boundingRect e) * 1000, x2 / width (boundingRect e) * 1000) \<noteq>
     (y2 / height (boundingRect e) * 1000, x2 / width (boundingRect e) * 1000,
      y1 / height (boundingRect e) * 1000, x1 / width (boundingRect e) * 1000)"
    using assms(1,2) by auto
  from fwd bwd differ show ?thesis by blast
qed

text \<open>
  An arrow drawn from pixel \<open>(100, 100)\<close> to pixel \<open>(400, 100)\<close> on the live surface of
  400 by 200 pixels, and the reverse arrow.
\<close>

theorem arrow_drag_directed_witness:
  "sideAnnotations Live
     (editForm (handleMouseUp ex_event
        (drag (setAnnotationType Arrow ex_editing) Live (100, 100) (400, 100)))) =
     [\<lparr>ann_type = Box, coords = (100, 200, 300, 400)\<rparr>,
      \<lparr>ann_type = Arrow, coords = (500, 250, 500, 1000)\<rparr>] \<and>
   sideAnnotations Live
     (editForm (handleMouseUp ex_event
        (drag (setAnnotationType Arrow ex_editing) Live (400, 100) (100, 100)))) =
     [\<lparr>ann_type = Box, coords = (100, 200, 300, 400)\<rparr>,
      \<lparr>ann_type = Arrow, coords = (500, 1000, 500, 250)\<rparr>]"
proof -
  have kind: "form_annotationType (editForm (setAnnotationType Arrow ex_editing)) = Some Arrow"
    by (simp add: setAnnotationType_def)
  have old: "sideAnnotations Live (editForm (setAnnotationType Arrow ex_editing)) =
               [\<lparr>ann_type = Box, coords = (100, 200, 300, 400)\<rparr>]"
    using ex_editing_live by (simp add: setAnnotationType_def sideAnnotations_def)
  have far: "\<not> (\<bar>(100::real) - 400\<bar> < 5 \<and> \<bar>(100::real) - 100\<bar> < 5)"
    by simp
  show ?thesis
    using arrow_drag_directed
      [of ex_event "setAnnotationType Arrow ex_editing" 100 400 100 100 Live, OF _ _ kind far]
    by (simp add: ex_event_size old)
qed

subsection \<open>Editing sessions\<close>

text \<open>
  An editing session is \<open>startEdit\<close>, called from any handler (\<open>snap\<close> the render's
  state, \<open>pend\<close> the pending state), followed by events on the buffer.
\<close>

lemma createIssue_ex_new:
  "createIssue ''2'' st = startEdit st (st\<lparr>issues := ex_new # issues st\<rparr>) ex_new"
  by (simp add: createIssue_def ex_new_def Let_def)

lemma session_issues:
  "issues (foldl bufferStep (startEdit snap pend issue) evs) = issues (startEdit snap pend issue)"
  by (rule foldl_bufferStep_issues)

lemma session_editingIssueId:
  "editingIssueId (foldl bufferStep (startEdit snap pend issue) evs) = Some (issue_id issue)"
  by (simp add: foldl_bufferStep_editingIssueId startEdit_editingIssueId)




text \<open>
  Claim C4. In every editing session on \<open>issue\<close>, \<open>cancelEdit\<close> clears the edited
  identifier and the buffer. It looks up the committed record with the session's
  identifier: when that record has both annotation sequences empty and the title
  \<open>New Issue\<close>, the records with that identifier are removed from the committed
  collection; otherwise (and when there is no such record) the committed collection is
  the one the session started with, which is the collection before \<open>startEdit\<close> when
  nothing was under edit then.
\<close>

theorem cancelEdit_session:
  "let s1 = startEdit snap pend issue;
       s2 = foldl bufferStep s1 evs;
       s3 = cancelEdit s2 s2
   in editingIssueId s3 = None \<and> editForm s3 = emptyForm \<and>
      (case find (\<lambda>i. issue_id i = issue_id issue) (issues s1) of
         None \<Rightarrow> issues s3 = issues s1
       | Some orig \<Rightarrow>
           if liveAnnotations orig = [] \<and> designAnnotations orig = [] \<and>
              title orig = ''New Issue''
           then issues s3 = filter (\<lambda>i. issue_id i \<noteq> issue_id issue) (issues s1) \<and>
                orig \<notin> set (issues s3)
           else issues s3 = issues s1) \<and>
      (\<not> truthy (editingIssueId snap) \<longrightarrow> issues s1 = issues pend)"
proof -
  define s1 where "s1 = startEdit snap pend issue"
  define s2 where "s2 = foldl bufferStep s1 evs"
  define s3 where "s3 = cancelEdit s2 s2"
  have resets: "editingIssueId s3 = None \<and> editForm s3 = emptyForm"
    unfolding s3_def by (rule cancelEdit_resets)
  have i2: "issues s2 = issues s1"
    unfolding s2_def by (rule foldl_bufferStep_issues)
  have e2: "editingIssueId s2 = Some (issue_id issue)"
    unfolding s2_def s1_def by (rule session_editingIssueId)
  have i3: "issues s3 =
     (case find (\<lambda>i. issue_id i = issue_id issue) (issues s1) of
        None \<Rightarrow> issues s1
      | Some orig \<Rightarrow>
          if liveAnnotations orig = [] \<and> designAnnotations orig = [] \<and>
             title orig = ''New Issue''
          then filter (\<lambda>i. issue_id i \<noteq> issue_id issue) (issues s1)
          else issues s1)"
    unfolding s3_def by (simp add: cancelEdit_issues i2 e2 split: option.splits)
  have gone: "orig \<notin> set (filter (\<lambda>i. issue_id i \<noteq> issue_id issue) (issues s1))"
    if "find (\<lambda>i. issue_id i = issue_id issue) (issues s1) = Some orig" for orig
    using that by (auto simp: find_Some_iff)
  have committed:
    "case find (\<lambda>i. issue_id i = issue_id issue) (issues s1) of
         None \<Rightarrow> issues s3 = issues s1
       | Some orig \<Rightarrow>
           if liveAnnotations orig = [] \<and> designAnnotations orig = [] \<and>
              title orig = ''New Issue''
           then issues s3 = filter (\<lambda>i. issue_id i \<noteq> issue_id issue) (issues s1) \<and>
                orig \<notin> set (issues s3)
           else issues s3 = issues s1"
  proof (cases "find (\<lambda>i. issue_id i = issue_id issue) (issues s1)")
    case None
    then show ?thesis by (simp add: i3)
  next
    case (Some orig)
    with gone [OF Some] show ?thesis by (simp add: i3)
  qed
  have before: "\<not> truthy (editingIssueId snap) \<longrightarrow> issues s1 = issues pend"
    unfolding s1_def by (simp add: startEdit_issues_noedit)
  from resets committed before show ?thesis
    unfolding Let_def s1_def [symmetric] s2_def [symmetric] s3_def [symmetric] by simp
qed

text \<open>
  Two sessions from a collection that holds the example issue: one on an issue just
  created, one on the example issue. Cancelling either leaves the example issue alone.
\<close>

theorem cancelEdit_session_witness:
  "issues (cancelEdit
      (foldl bufferStep (createIssue ''2'' (initialState [ex_issue]))
         [SetDescription ''Draft'', SetSeverity High])
      (foldl bufferStep (createIssue ''2'' (initialState [ex_issue]))
         [SetDescription ''Draft'', SetSeverity High])) = [ex_issue] \<and>
   issues (cancelEdit
      (foldl bufferStep (startEdit (initialState [ex_issue]) (initialState [ex_issue]) ex_issue)
         [SetTitle ''Renamed'', DeleteAnnotation Live 0])
      (foldl bufferStep (startEdit (initialState [ex_issue]) (initialState [ex_issue]) ex_issue)
         [SetTitle ''Renamed'', DeleteAnnotation Live 0])) = [ex_issue]"
proof -
  have created: "issues (startEdit (initialState [ex_issue])
        ((initialState [ex_issue])\<lparr>issues := ex_new # issues (initialState [ex_issue])\<rparr>) ex_new) =
      [ex_new, ex_issue]"
    by (simp add: startEdit_issues_noedit initialState_def truthy_def)
  have started: "issues (startEdit (initialState [ex_issue]) (initialState [ex_issue]) ex_issue) =
      [ex_issue]"
    by (simp add: startEdit_issues_noedit initialState_def truthy_def)
  have ids: "issue_id ex_new = ''2''" "issue_id ex_issue = ''1''"
    by (simp_all add: ex_new_def ex_issue_def)
  have new: "liveAnnotations ex_new = []" "designAnnotations ex_new = []" "title ex_new = ''New Issue''"
    by (simp_all add: ex_new_def)
  have old: "liveAnnotations ex_issue \<noteq> []"
    by (simp add: ex_issue_def)
  have first: "issues (cancelEdit
      (foldl bufferStep (createIssue ''2'' (initialState [ex_issue]))
         [SetDescription ''Draft'', SetSeverity High])
      (foldl bufferStep (createIssue ''2'' (initialState [ex_issue]))
         [SetDescription ''Draft'', SetSeverity High])) = [ex_issue]"
    using cancelEdit_session [of "initialState [ex_issue]"
        "(initialState [ex_issue])\<lparr>issues := ex_new # issues (initialState [ex_issue])\<rparr>"
        ex_new "[SetDescription ''Draft'', SetSeverity High]"]
    unfolding Let_def createIssue_ex_new created
    by (simp add: ids new)
  have second: "issues (cancelEdit
      (foldl bufferStep (startEdit (initialState [ex_issue]) (initialState [ex_issue]) ex_issue)
         [SetTitle ''Renamed'', DeleteAnnotation Live 0])
      (foldl bufferStep (startEdit (initialState [ex_issue]) (initialState [ex_issue]) ex_issue)
         [SetTitle ''Renamed'', DeleteAnnotation Live 0])) = [ex_issue]"
    using cancelEdit_session [of "initialState [ex_issue]" "initialState [ex_issue]"
        ex_issue "[SetTitle ''Renamed'', DeleteAnnotation Live 0]"]
    unfolding Let_def started
    by (simp add: ids old)
  from first second show ?thesis by simp
qed





subsection \<open>The edit buffer over the store\<close>









lemma cancelEdit_store_heap: "heap (cancelEdit_store snap pend) = heap pend"
  by (simp add: cancelEdit_store_def Let_def split: option.splits)

lemma startEdit_store_pending_heap:
  "heap (if truthy (s_editingIssueId snap) \<and> s_editingIssueId snap \<noteq> Some (ref_id issue)
         then cancelEdit_store snap pend else pend) = heap pend"
  by (simp add: cancelEdit_store_heap)








text \<open>
  \<open>createIssue\<close> while the committed record under edit is an untouched new issue: the
  collection queued by \<open>createIssue\<close> is replaced by the cancel path's filter of the
  render's collection.
\<close>

lemma createIssue_cancel_path:
  assumes "editingIssueId st = Some k" and "k \<noteq> []" and "k \<noteq> newId"
      and "find (\<lambda>i. Some (issue_id i) = Some k) (issues st) = Some orig"
      and "liveAnnotations orig = []" and "designAnnotations orig = []"
      and "title orig = ''New Issue''"
  shows "issues (createIssue newId st) = filter (\<lambda>i. issue_id i \<noteq> k) (issues st) \<and>
         editingIssueId (createIssue newId st) = Some newId"
  using assms
  by (simp add: createIssue_def startEdit_def cancelEdit_def Let_def truthy_def)

text \<open>
  Claim C10. \<open>createIssue\<close> while an untouched new issue is under edit: the first call,
  on the empty collection, prepends the new record and edits it; the second call queues
  the collection with its own record prepended, and then \<open>cancelEdit\<close>, called by
  \<open>startEdit\<close>, replaces the queued collection by the render's collection without the
  first record. The second record is under edit and is not in the collection.
\<close>

theorem createIssue_twice_loses_issue:
  "issues (createIssue ''1'' (initialState [])) =
     [\<lparr>issue_id = ''1'', title = ''New Issue'',
       description = ''Describe the issue...'', box_2d = None,
       design_box_2d = None, liveAnnotations = [], designAnnotations = [],
       designReference = ''Expected behavior...'',
       liveObservation = ''Observed behavior...'',
       suggestion = ''Suggested fix...'', severity = Medium,
       annotationType = Some Box\<rparr>] \<and>
   editingIssueId (createIssue ''1'' (initialState [])) = Some ''1'' \<and>
   issues (createIssue ''2'' (createIssue ''1'' (initialState []))) = [] \<and>
   editingIssueId (createIssue ''2'' (createIssue ''1'' (initialState []))) = Some ''2''"
  by (simp add: createIssue_def startEdit_def cancelEdit_def Let_def initialState_def truthy_def)

subsection \<open>Input adapter\<close>

lemma boxAnnotations_four:
  "boxAnnotations (Some [a, b, c, d]) = [\<lparr>ann_type = Box, coords = (a, b, c, d)\<rparr>]"
  by (simp add: boxAnnotations_def coordsOfArray_def)

lemma boxAnnotations_absent: "boxAnnotations None = []"
  by (simp add: boxAnnotations_def)

lemma boxAnnotations_malformed: "length b \<noteq> 4 \<Longrightarrow> boxAnnotations (Some b) = []"
  by (simp add: boxAnnotations_def)

lemma transformedIssues_nth:
  "k < length raws \<Longrightarrow>
   liveAnnotations (transformedIssues raws ! k) = boxAnnotations (raw_box_2d (raws ! k)) \<and>
   designAnnotations (transformedIssues raws ! k) = boxAnnotations (raw_design_box_2d (raws ! k)) \<and>
   annotationType (transformedIssues raws ! k) = Some Box"
  by (simp add: transformedIssues_def)

text \<open>
  Claim C6. The adapter keeps the number and order of the specific issues. For each of
  them, a \<open>box_2d\<close> of exactly four components gives a live sequence of exactly one
  box with those coordinates, an absent one or one of another length gives the empty
  sequence; the same holds of \<open>design_box_2d\<close> and the design sequence; the default
  annotation kind is the box.
\<close>

theorem adapter_boxes:
  "length (transformedIssues raws) = length raws \<and>
   (\<forall>k < length raws.
      (\<forall>a b c d. raw_box_2d (raws ! k) = Some [a, b, c, d] \<longrightarrow>
         liveAnnotations (transformedIssues raws ! k) =
           [\<lparr>ann_type = Box, coords = (a, b, c, d)\<rparr>]) \<and>
      (raw_box_2d (raws ! k) = None \<or>
       (\<exists>b. raw_box_2d (raws ! k) = Some b \<and> length b \<noteq> 4) \<longrightarrow>
         liveAnnotations (transformedIssues raws ! k) = []) \<and>
      (\<forall>a b c d. raw_design_box_2d (raws ! k) = Some [a, b, c, d] \<longrightarrow>
         designAnnotations (transformedIssues raws ! k) =
           [\<lparr>ann_type = Box, coords = (a, b, c, d)\<rparr>]) \<and>
      (raw_design_box_2d (raws ! k) = None \<or>
       (\<exists>b. raw_design_box_2d (raws ! k) = Some b \<and> length b \<noteq> 4) \<longrightarrow>
         designAnnotations (transformedIssues raws ! k) = []) \<and>
      annotationType (transformedIssues raws ! k) = Some Box)"
proof -
  have len: "length (transformedIssues raws) = length raws"
    by (simp add: transformedIssues_def)
  have each:
     "(\<forall>a b c d. raw_box_2d (raws ! k) = Some [a, b, c, d] \<longrightarrow>
         liveAnnotations (transformedIssues raws ! k) =
           [\<lparr>ann_type = Box, coords = (a, b, c, d)\<rparr>]) \<and>
      (raw_box_2d (raws ! k) = None \<or>
       (\<exists>b. raw_box_2d (raws ! k) = Some b \<and> length b \<noteq> 4) \<longrightarrow>
         liveAnnotations (transformedIssues raws ! k) = []) \<and>
      (\<forall>a b c d. raw_design_box_2d (raws ! k) = Some [a, b, c, d] \<longrightarrow>
         designAnnotations (transformedIssues raws ! k) =
           [\<lparr>ann_type = Box, coords = (a, b, c, d)\<rparr>]) \<and>
      (raw_design_box_2d (raws ! k) = None \<or>
       (\<exists>b. raw_design_box_2d (raws ! k) = Some b \<and> length b \<noteq> 4) \<longrightarrow>
         designAnnotations (transformedIssues raws ! k) = []) \<and>
      annotationType (transformedIssues raws ! k) = Some Box"
    if "k < length raws" for k
    using transformedIssues_nth [OF that]
    by (auto simp: boxAnnotations_four boxAnnotations_absent boxAnnotations_malformed)
  from len each show ?thesis by blast
qed

text \<open>The scenario of the specification, a box of three components and an absent box.\<close>

theorem adapter_boxes_witness:
  "liveAnnotations (transformedIssues [ex_raw] ! 0) =
     [\<lparr>ann_type = Box, coords = (100, 200, 300, 400)\<rparr>] \<and>
   designAnnotations (transformedIssues [ex_raw] ! 0) =
     [\<lparr>ann_type = Box, coords = (110, 210, 310, 410)\<rparr>] \<and>
   liveAnnotations (transformedIssues [ex_raw\<lparr>raw_box_2d := Some [100, 200, 300]\<rparr>] ! 0) = [] \<and>
   designAnnotations (transformedIssues [ex_raw\<lparr>raw_design_box_2d := None\<rparr>] ! 0) = []"
proof -
  have well: "liveAnnotations (transformedIssues [ex_raw] ! 0) =
     [\<lparr>ann_type = Box, coords = (100, 200, 300, 400)\<rparr>] \<and>
   designAnnotations (transformedIssues [ex_raw] ! 0) =
     [\<lparr>ann_type = Box, coords = (110, 210, 310, 410)\<rparr>]"
    using adapter_boxes [of "[ex_raw]"] by (simp add: ex_raw_def)
  have short: "liveAnnotations (transformedIssues [ex_raw\<lparr>raw_box_2d := Some [100, 200, 300]\<rparr>] ! 0) = []"
    using adapter_boxes [of "[ex_raw\<lparr>raw_box_2d := Some [100, 200, 300]\<rparr>]"] by simp
  have absent: "designAnnotations (transformedIssues [ex_raw\<lparr>raw_design_box_2d := None\<rparr>] ! 0) = []"
    using adapter_boxes [of "[ex_raw\<lparr>raw_design_box_2d := None\<rparr>]"] by simp
  from well short absent show ?thesis by blast
qed

subsection \<open>Rendering of the degenerate box\<close>

lemma getCropStyle_first:
  assumes "src \<noteq> []"
      and "(if ty = Design then designAnnotations issue else liveAnnotations issue) = a # rest"
      and "coords a = (y1, x1, y2, x2)"
  shows "getCropStyle issue (Some src) ty z =
           Some \<lparr>backgroundImage = ''url('' @ src @ '')'', cropX = (x1 + x2) / 2 / 10,
                 cropY = (y1 + y2) / 2 / 10, backgroundSize = z\<rparr>"
proof -
  have sumx: "min x1 x2 + max x1 x2 = x1 + x2" by (simp add: min_def max_def)
  have sumy: "min y1 y2 + max y1 y2 = y1 + y2" by (simp add: min_def max_def)
  show ?thesis
    using assms sumx sumy
    by (cases ty) (simp_all add: getCropStyle_def truthy_def Let_def orElse_def)
qed

lemma getCropStyle_none:
  assumes "src \<noteq> []"
      and "(if ty = Design then designAnnotations issue else liveAnnotations issue) = []"
  shows "getCropStyle issue (Some src) ty z =
           Some \<lparr>backgroundImage = ''url('' @ src @ '')'', cropX = 0, cropY = 0,
                 backgroundSize = z\<rparr>"
  using assms by (cases ty) (simp_all add: getCropStyle_def truthy_def Let_def orElse_def)

text \<open>
  Claim C7, amended. For an annotation with the coordinates \<open>[0, 0, 0, 0]\<close> the
  interactive renderer produces no overlay, whatever the kind, and the exported
  document gives a box the style \<open>display: none\<close>. The crop view does not exclude it:
  for an image source that is not empty, \<open>getCropStyle\<close> centres the crop on the first
  annotation of the side, whatever its coordinates, hence at 0% 0% when that annotation
  is degenerate, and also at 0% 0% when the side has no annotation.
\<close>

theorem degenerate_box_rendering:
  "renderAnnotation \<lparr>ann_type = k, coords = (0, 0, 0, 0)\<rparr> = None \<and>
   exportOverlays [\<lparr>ann_type = Box, coords = (0, 0, 0, 0)\<rparr>] = [BoxDiv DisplayNone] \<and>
   (src \<noteq> [] \<and>
    (if ty = Design then designAnnotations issue else liveAnnotations issue) = a # rest \<and>
    coords a = (y1, x1, y2, x2) \<longrightarrow>
      getCropStyle issue (Some src) ty z =
        Some \<lparr>backgroundImage = ''url('' @ src @ '')'', cropX = (x1 + x2) / 2 / 10,
              cropY = (y1 + y2) / 2 / 10, backgroundSize = z\<rparr>) \<and>
   (src \<noteq> [] \<and>
    (if ty = Design then designAnnotations issue else liveAnnotations issue) = a # rest \<and>
    coords a = (0, 0, 0, 0) \<longrightarrow>
      getCropStyle issue (Some src) ty z =
        Some \<lparr>backgroundImage = ''url('' @ src @ '')'', cropX = 0, cropY = 0,
              backgroundSize = z\<rparr>) \<and>
   (src \<noteq> [] \<and>
    (if ty = Design then designAnnotations issue else liveAnnotations issue) = [] \<longrightarrow>
      getCropStyle issue (Some src) ty z =
        Some \<lparr>backgroundImage = ''url('' @ src @ '')'', cropX = 0, cropY = 0,
              backgroundSize = z\<rparr>)"
proof -
  have interactive: "renderAnnotation \<lparr>ann_type = k, coords = (0, 0, 0, 0)\<rparr> = None"
    by (simp add: renderAnnotation_def)
  have exported: "exportOverlays [\<lparr>ann_type = Box, coords = (0, 0, 0, 0)\<rparr>] = [BoxDiv DisplayNone]"
    by (simp add: exportOverlays_def createBox_def getStyle_def)
  have zero: "getCropStyle issue (Some src) ty z =
        Some \<lparr>backgroundImage = ''url('' @ src @ '')'', cropX = 0, cropY = 0,
              backgroundSize = z\<rparr>"
    if "src \<noteq> []" "(if ty = Design then designAnnotations issue else liveAnnotations issue) = a # rest"
       "coords a = (0, 0, 0, 0)"
    using getCropStyle_first [OF that, of z] by simp
  from interactive exported zero getCropStyle_first [of src ty issue a rest y1 x1 y2 x2 z]
    getCropStyle_none [of src ty issue z]
  show ?thesis by blast
qed

text \<open>The crop of the example issue's design side is centred on its box.\<close>

theorem degenerate_box_rendering_witness:
  "renderAnnotation \<lparr>ann_type = Arrow, coords = (0, 0, 0, 0)\<rparr> = None \<and>
   getCropStyle ex_issue (Some ''design.png'') Design 300 =
     Some \<lparr>backgroundImage = ''url(design.png)'', cropX = 31, cropY = 21, backgroundSize = 300\<rparr>"
  using degenerate_box_rendering [of Arrow "''design.png''" Design ex_issue
      "\<lparr>ann_type = Box, coords = (110, 210, 310, 410)\<rparr>" "[]" 110 210 310 410 300]
  by (simp add: ex_issue_def)

text \<open>
  Claim C7 as stated fails: with a degenerate box before a real one, the crop view is
  keyed on the degenerate box and shows the image at 0% 0%, and with no annotation it
  shows the same crop.
\<close>

theorem crop_view_selects_degenerate_box:
  "getCropStyle
     (ex_issue\<lparr>liveAnnotations :=
        [\<lparr>ann_type = Box, coords = (0, 0, 0, 0)\<rparr>,
         \<lparr>ann_type = Box, coords = (100, 200, 300, 400)\<rparr>]\<rparr>)
     (Some ''live.png'') Live 300 =
     Some \<lparr>backgroundImage = ''url(live.png)'', cropX = 0, cropY = 0, backgroundSize = 300\<rparr> \<and>
   getCropStyle (ex_issue\<lparr>liveAnnotations := []\<rparr>) (Some ''live.png'') Live 300 =
     Some \<lparr>backgroundImage = ''url(live.png)'', cropX = 0, cropY = 0, backgroundSize = 300\<rparr>"
  by (simp add: getCropStyle_def truthy_def Let_def orElse_def ex_issue_def)

subsection \<open>Range of the stored coordinates\<close>

lemma handleMouseDown_onSurface:
  assumes "truthy (editingIssueId st)"
      and "rect_left (boundingRect e) \<le> clientX e"
      and "clientX e \<le> rect_left (boundingRect e) + w"
      and "rect_top (boundingRect e) \<le> clientY e"
      and "clientY e \<le> rect_top (boundingRect e) + h"
  shows "dragOnSurface w h ty (handleMouseDown e ty st) \<and>
         editForm (handleMouseDown e ty st) = editForm st"
  using assms by (simp add: handleMouseDown_def dragOnSurface_def Let_def)

lemma handleMouseMove_onSurface:
  assumes "dragOnSurface w h ty s" and "0 < w" and "0 < h"
      and "width (boundingRect e) = w" and "height (boundingRect e) = h"
  shows "dragOnSurface w h ty (handleMouseMove e s) \<and>
         editForm (handleMouseMove e s) = editForm s"
  using assms
  by (auto simp: handleMouseMove_def dragOnSurface_def Let_def split: option.splits prod.splits)

lemma moves_onSurface:
  assumes "dragOnSurface w h ty s" and "0 < w" and "0 < h"
      and "\<forall>e \<in> set ems. width (boundingRect e) = w \<and> height (boundingRect e) = h"
  shows "dragOnSurface w h ty (foldl (\<lambda>s e. handleMouseMove e s) s ems) \<and>
         editForm (foldl (\<lambda>s e. handleMouseMove e s) s ems) = editForm s"
  using assms
proof (induction ems arbitrary: s)
  case Nil
  then show ?case by simp
next
  case (Cons e ems)
  have step: "dragOnSurface w h ty (handleMouseMove e s) \<and>
              editForm (handleMouseMove e s) = editForm s"
    using Cons.prems by (intro handleMouseMove_onSurface) simp_all
  have rest: "\<forall>e \<in> set ems. width (boundingRect e) = w \<and> height (boundingRect e) = h"
    using Cons.prems(4) by simp
  from Cons.IH [OF conjunct1 [OF step] Cons.prems(2,3) rest] step show ?case
    by simp
qed

lemma scaled_in_range:
  assumes "0 < (c::real)" and "0 \<le> a" and "a \<le> c"
  shows "0 \<le> a / c * 1000 \<and> a / c * 1000 \<le> 1000"
  using assms by (simp add: field_simps)

lemma handleMouseUp_onSurface_appends:
  assumes on: "dragOnSurface w h ty s" and "0 < w" and "0 < h"
      and "width (boundingRect e) = w" and "height (boundingRect e) = h"
  shows "sideAnnotations ty (editForm (handleMouseUp e s)) = sideAnnotations ty (editForm s) \<or>
         (\<exists>a. sideAnnotations ty (editForm (handleMouseUp e s)) =
                 sideAnnotations ty (editForm s) @ [a] \<and> inRange a)"
proof -
  from on obtain x0 y0 x y where
    ds: "dragStart s = Some (x0, y0, ty)" and cd: "currentDrag s = Some (x, y)"
    and b: "0 \<le> x0" "x0 \<le> w" "0 \<le> y0" "y0 \<le> h" "0 \<le> x" "x \<le> w" "0 \<le> y" "y \<le> h"
    by (auto simp: dragOnSurface_def split: option.splits prod.splits)
  have s: "s = drag s ty (x0, y0) (x, y)"
    using ds cd by (simp add: drag_def)
  show ?thesis
  proof (cases "\<bar>x0 - x\<bar> < 5 \<and> \<bar>y0 - y\<bar> < 5")
    case True
    then have "editForm (handleMouseUp e s) = editForm s"
      by (simp add: handleMouseUp_def ds cd)
    then show ?thesis by simp
  next
    case False
    let ?a = "\<lparr>ann_type = (case form_annotationType (editForm s) of None \<Rightarrow> Box | Some t \<Rightarrow> t),
             coords =
               (if form_annotationType (editForm s) = Some Arrow
                then (y0 / h * 1000, x0 / w * 1000, y / h * 1000, x / w * 1000)
                else (min (y0 / h * 1000) (y / h * 1000), min (x0 / w * 1000) (x / w * 1000),
                      max (y0 / h * 1000) (y / h * 1000), max (x0 / w * 1000) (x / w * 1000)))\<rparr>"
    have sx0: "0 \<le> x0 / w * 1000 \<and> x0 / w * 1000 \<le> 1000"
      using assms(2) b by (intro scaled_in_range) simp_all
    have sy0: "0 \<le> y0 / h * 1000 \<and> y0 / h * 1000 \<le> 1000"
      using assms(3) b by (intro scaled_in_range) simp_all
    have sx: "0 \<le> x / w * 1000 \<and> x / w * 1000 \<le> 1000"
      using assms(2) b by (intro scaled_in_range) simp_all
    have sy: "0 \<le> y / h * 1000 \<and> y / h * 1000 \<le> 1000"
      using assms(3) b by (intro scaled_in_range) simp_all
    have new: "inRange ?a"
      using sx0 sy0 sx sy by (simp add: inRange_def min_def max_def)
    have same: "sideAnnotations ty (editForm (handleMouseUp e s)) =
                sideAnnotations ty (editForm s) @ [?a]"
      using handleMouseUp_drag [OF False, of ty e s] assms(4,5) s by simp
    from same new show ?thesis by blast
  qed
qed

lemma handleMouseUp_other_side:
  assumes "dragOnSurface w h ty s" and "ty' \<noteq> ty"
  shows "sideAnnotations ty' (editForm (handleMouseUp e s)) = sideAnnotations ty' (editForm s)"
proof -
  from assms(1) obtain x0 y0 x y where
    ds: "dragStart s = Some (x0, y0, ty)" and cd: "currentDrag s = Some (x, y)"
    by (auto simp: dragOnSurface_def split: option.splits prod.splits)
  show ?thesis
    using assms(2)
    by (cases ty; cases ty')
       (simp_all add: handleMouseUp_def ds cd Let_def sideAnnotations_def)
qed

lemma handleMouseDown_issues: "issues (handleMouseDown e ty st) = issues st"
  using bufferStep_issues [of st "MouseDown e ty"] by simp

lemma handleMouseUp_issues: "issues (handleMouseUp e st) = issues st"
  using bufferStep_issues [of st "MouseUp e"] by simp

lemma moves_issues: "issues (foldl (\<lambda>s e. handleMouseMove e s) st ems) = issues st"
proof (induction ems arbitrary: st)
  case Nil
  then show ?case by simp
next
  case (Cons e ems)
  then show ?case using bufferStep_issues [of st "MouseMove e"] by simp
qed

lemma boxAnnotations_inRange:
  "(\<forall>a \<in> set (boxAnnotations box). inRange a) =
   (\<forall>b. box = Some b \<and> length b = 4 \<longrightarrow> (\<forall>v \<in> set b. 0 \<le> v \<and> v \<le> 1000))"
proof (cases box)
  case None
  then show ?thesis by (simp add: boxAnnotations_def)
next
  case (Some b)
  show ?thesis
  proof (cases "length b = 4")
    case True
    then obtain b0 b1 b2 b3 where b: "b = [b0, b1, b2, b3]"
      by (auto simp: length_Suc_conv eval_nat_numeral)
    show ?thesis
      unfolding Some b by (auto simp: boxAnnotations_def coordsOfArray_def inRange_def)
  next
    case False
    then show ?thesis by (simp add: Some boxAnnotations_def)
  qed
qed

lemma transformedIssues_inRange:
  "(\<forall>i \<in> set (transformedIssues raws).
      \<forall>a \<in> set (liveAnnotations i @ designAnnotations i). inRange a) =
   (\<forall>r \<in> set raws. \<forall>b.
      (raw_box_2d r = Some b \<or> raw_design_box_2d r = Some b) \<and> length b = 4 \<longrightarrow>
      (\<forall>v \<in> set b. 0 \<le> v \<and> v \<le> 1000))"
proof -
  have "(\<forall>i \<in> set (transformedIssues raws).
      \<forall>a \<in> set (liveAnnotations i @ designAnnotations i). inRange a) =
    (\<forall>r \<in> set raws. (\<forall>a \<in> set (boxAnnotations (raw_box_2d r)). inRange a) \<and>
                      (\<forall>a \<in> set (boxAnnotations (raw_design_box_2d r)). inRange a))"
    by (auto simp: transformedIssues_def)
  also have "\<dots> = (\<forall>r \<in> set raws. \<forall>b.
      (raw_box_2d r = Some b \<or> raw_design_box_2d r = Some b) \<and> length b = 4 \<longrightarrow>
      (\<forall>v \<in> set b. 0 \<le> v \<and> v \<le> 1000))"
    unfolding boxAnnotations_inRange by blast
  finally show ?thesis .
qed

text \<open>
  Claim C8, amended. A gesture in an editing session (pointer-down on the surface, any
  number of moves, pointer-up, all on a surface of the same positive size) leaves the
  committed collection and the other side's sequence unchanged, and appends to the
  buffer's sequence of its side either nothing or one annotation whose four coordinates
  lie in \<open>[0, 1000]\<close>. The adapter does not bound its input: the annotations it
  produces are all in range exactly when every box of four components that the
  collaborator sent has its components in \<open>[0, 1000]\<close>.
\<close>

theorem drag_and_adapter_ranges:
  assumes "truthy (editingIssueId st)" and "0 < w" and "0 < h"
      and "\<forall>e \<in> set (ed # eu # ems). width (boundingRect e) = w \<and> height (boundingRect e) = h"
      and "rect_left (boundingRect ed) \<le> clientX ed"
      and "clientX ed \<le> rect_left (boundingRect ed) + width (boundingRect ed)"
      and "rect_top (boundingRect ed) \<le> clientY ed"
      and "clientY ed \<le> rect_top (boundingRect ed) + height (boundingRect ed)"
  shows "(let s' = handleMouseUp eu
                     (foldl (\<lambda>s e. handleMouseMove e s) (handleMouseDown ed ty st) ems)
          in issues s' = issues st \<and>
             (sideAnnotations ty (editForm s') = sideAnnotations ty (editForm st) \<or>
              (\<exists>a. sideAnnotations ty (editForm s') = sideAnnotations ty (editForm st) @ [a] \<and>
                    inRange a)) \<and>
             (ty' \<noteq> ty \<longrightarrow>
                sideAnnotations ty' (editForm s') = sideAnnotations ty' (editForm st))) \<and>
         ((\<forall>i \<in> set (transformedIssues raws).
             \<forall>a \<in> set (liveAnnotations i @ designAnnotations i). inRange a) =
          (\<forall>r \<in> set raws. \<forall>b.
             (raw_box_2d r = Some b \<or> raw_design_box_2d r = Some b) \<and> length b = 4 \<longrightarrow>
             (\<forall>v \<in> set b. 0 \<le> v \<and> v \<le> 1000)))"
proof -
  define s1 where "s1 = handleMouseDown ed ty st"
  define s2 where "s2 = foldl (\<lambda>s e. handleMouseMove e s) s1 ems"
  define s3 where "s3 = handleMouseUp eu s2"
  have size_d: "width (boundingRect ed) = w" "height (boundingRect ed) = h"
    and size_u: "width (boundingRect eu) = w" "height (boundingRect eu) = h"
    and size_m: "\<forall>e \<in> set ems. width (boundingRect e) = w \<and> height (boundingRect e) = h"
    using assms(4) by simp_all
  have down: "dragOnSurface w h ty s1 \<and> editForm s1 = editForm st"
    unfolding s1_def using assms(1,5-8) unfolding size_d by (rule handleMouseDown_onSurface)
  have moved: "dragOnSurface w h ty s2 \<and> editForm s2 = editForm s1"
    unfolding s2_def using conjunct1 [OF down] assms(2,3) size_m by (rule moves_onSurface)
  have form2: "editForm s2 = editForm st"
    using down moved by simp
  have committed: "issues s3 = issues st"
    unfolding s3_def s2_def s1_def
    by (simp add: handleMouseUp_issues moves_issues handleMouseDown_issues)
  have appended: "sideAnnotations ty (editForm s3) = sideAnnotations ty (editForm st) \<or>
         (\<exists>a. sideAnnotations ty (editForm s3) = sideAnnotations ty (editForm st) @ [a] \<and>
               inRange a)"
    using handleMouseUp_onSurface_appends [OF conjunct1 [OF moved] assms(2,3) size_u]
    unfolding s3_def form2 .
  have other: "ty' \<noteq> ty \<longrightarrow>
         sideAnnotations ty' (editForm s3) = sideAnnotations ty' (editForm st)"
    using handleMouseUp_other_side [OF conjunct1 [OF moved], of ty' eu]
    unfolding s3_def form2 by blast
  from committed appended other transformedIssues_inRange [of raws] show ?thesis
    unfolding Let_def s1_def [symmetric] s2_def [symmetric] s3_def [symmetric] by blast
qed

text \<open>
  A drag on the example surface from pixel \<open>(300, 150)\<close> to a pointer position far
  outside the surface, which the move clamps to the corner \<open>(400, 0)\<close>.
\<close>

theorem drag_and_adapter_ranges_witness:
  "sideAnnotations Live (editForm
      (handleMouseUp ex_event
         (foldl (\<lambda>s e. handleMouseMove e s) (handleMouseDown ex_event Live ex_editing)
            [ex_event\<lparr>clientX := 1000, clientY := - 50\<rparr>]))) =
     [\<lparr>ann_type = Box, coords = (100, 200, 300, 400)\<rparr>,
      \<lparr>ann_type = Box, coords = (0, 750, 750, 1000)\<rparr>] \<and>
   inRange \<lparr>ann_type = Box, coords = (0, 750, 750, 1000)\<rparr>"
proof -
  define final where "final = handleMouseUp ex_event
         (foldl (\<lambda>s e. handleMouseMove e s) (handleMouseDown ex_event Live ex_editing)
            [ex_event\<lparr>clientX := 1000, clientY := - 50\<rparr>])"
  have editing: "truthy (editingIssueId ex_editing)"
    by (simp add: ex_editing_def startEdit_editingIssueId ex_issue_def truthy_def)
  have computed: "sideAnnotations Live (editForm final) =
     [\<lparr>ann_type = Box, coords = (100, 200, 300, 400)\<rparr>,
      \<lparr>ann_type = Box, coords = (0, 750, 750, 1000)\<rparr>]"
    unfolding final_def using editing
    by (simp add: ex_editing_def startEdit_def Let_def handler_defs spreadIssue_def
        sideAnnotations_def orEmpty_def ex_issue_def ex_event_def initialState_def)
  have "sideAnnotations Live (editForm final) = sideAnnotations Live (editForm ex_editing) \<or>
        (\<exists>a. sideAnnotations Live (editForm final) =
              sideAnnotations Live (editForm ex_editing) @ [a] \<and> inRange a)"
    using drag_and_adapter_ranges [of ex_editing 400 200 ex_event ex_event
        "[ex_event\<lparr>clientX := 1000, clientY := - 50\<rparr>]" Live Live "[]", OF editing]
    unfolding Let_def final_def [symmetric]
    by (simp add: ex_event_def)
  then have "inRange \<lparr>ann_type = Box, coords = (0, 750, 750, 1000)\<rparr>"
    unfolding computed ex_editing_live by auto
  with computed show ?thesis
    unfolding final_def by simp
qed

text \<open>
  Claim C8 as stated fails: a collaborator box with a component above 1000 is stored
  unchanged.
\<close>

theorem adapter_keeps_out_of_range_box:
  "liveAnnotations (transformedIssues [ex_raw\<lparr>raw_box_2d := Some [0, 0, 0, 1500]\<rparr>] ! 0) =
     [\<lparr>ann_type = Box, coords = (0, 0, 0, 1500)\<rparr>] \<and>
   \<not> inRange \<lparr>ann_type = Box, coords = (0, 0, 0, 1500)\<rparr>"
  by (simp add: transformedIssues_def boxAnnotations_def coordsOfArray_def inRange_def)

subsection \<open>Further properties of the drawing and editing handlers\<close>

lemma enumerate_filter_ne:
  "map snd (filter (\<lambda>p. fst p \<noteq> n + i) (enumerate n xs)) = take i xs @ drop (Suc i) xs"
proof (induction xs arbitrary: n i)
  case Nil
  then show ?case by simp
next
  case (Cons x xs)
  show ?case
  proof (cases i)
    case 0
    have "filter (\<lambda>p. fst p \<noteq> n) (enumerate (Suc n) xs) = enumerate (Suc n) xs"
      by (rule filter_True) (auto simp: in_set_enumerate_eq)
    then show ?thesis using 0 by simp
  next
    case (Suc j)
    with Cons.IH [of "Suc n" j] show ?thesis by simp
  qed
qed

lemma removeAt_take_drop: "removeAt i xs = take i xs @ drop (Suc i) xs"
  using enumerate_filter_ne [of 0 i xs] by (simp add: removeAt_def)

text \<open>
  Removing the annotation at index \<open>i\<close> of a side removes exactly that element of the
  buffer's sequence and shifts the later ones down by one; an index past the end
  removes nothing. The committed collection is unchanged.
\<close>

theorem deleteAnnotation_removes_index:
  "sideAnnotations ty (editForm (deleteAnnotation ty i st)) =
     take i (sideAnnotations ty (editForm st)) @ drop (Suc i) (sideAnnotations ty (editForm st)) \<and>
   issues (deleteAnnotation ty i st) = issues st"
  by (cases ty)
     (simp_all add: deleteAnnotation_def Let_def sideAnnotations_def orEmpty_def removeAt_take_drop)

theorem deleteAnnotation_removes_index_witness:
  "sideAnnotations Live (editForm (deleteAnnotation Live 1
      (ex_editing\<lparr>editForm := (editForm ex_editing)\<lparr>form_liveAnnotations :=
         Some [\<lparr>ann_type = Box, coords = (1, 1, 2, 2)\<rparr>,
               \<lparr>ann_type = Arrow, coords = (3, 3, 4, 4)\<rparr>,
               \<lparr>ann_type = Box, coords = (5, 5, 6, 6)\<rparr>]\<rparr>\<rparr>))) =
   [\<lparr>ann_type = Box, coords = (1, 1, 2, 2)\<rparr>, \<lparr>ann_type = Box, coords = (5, 5, 6, 6)\<rparr>]"
  using deleteAnnotation_removes_index [of Live 1
      "ex_editing\<lparr>editForm := (editForm ex_editing)\<lparr>form_liveAnnotations :=
         Some [\<lparr>ann_type = Box, coords = (1, 1, 2, 2)\<rparr>,
               \<lparr>ann_type = Arrow, coords = (3, 3, 4, 4)\<rparr>,
               \<lparr>ann_type = Box, coords = (5, 5, 6, 6)\<rparr>]\<rparr>\<rparr>"]
  by (simp add: sideAnnotations_def orEmpty_def)

text \<open>
  A pointer-up less than 5 pixels from the pointer-down in both directions ends the drag
  and adds no annotation.
\<close>

theorem small_drag_discarded:
  assumes "\<bar>x1 - x2\<bar> < 5" and "\<bar>y1 - y2\<bar> < 5"
  shows "editForm (handleMouseUp e (drag st ty (x1, y1) (x2, y2))) = editForm st \<and>
         issues (handleMouseUp e (drag st ty (x1, y1) (x2, y2))) = issues st \<and>
         dragStart (handleMouseUp e (drag st ty (x1, y1) (x2, y2))) = None \<and>
         currentDrag (handleMouseUp e (drag st ty (x1, y1) (x2, y2))) = None"
  using assms by (simp add: handleMouseUp_def drag_def)

theorem small_drag_discarded_witness:
  "editForm (handleMouseUp ex_event (drag ex_editing Live (100, 100) (104, 97))) =
     editForm ex_editing"
  using small_drag_discarded [of 100 104 100 97 ex_event ex_editing Live] by simp

text \<open>
  When nothing is under edit, or the committed record under edit is not an untouched new
  issue, \<open>createIssue\<close> prepends a record with the new identifier, the placeholder
  title, empty annotation sequences, medium severity and the box as annotation kind, and
  puts it under edit with a buffer that copies it.
\<close>

theorem createIssue_prepends:
  assumes "\<not> truthy (editingIssueId st) \<or>
           (\<exists>orig. find (\<lambda>i. Some (issue_id i) = editingIssueId st) (issues st) = Some orig \<and>
                   \<not> (liveAnnotations orig = [] \<and> designAnnotations orig = [] \<and>
                      title orig = ''New Issue''))"
  shows "\<exists>newIssue.
           issues (createIssue newId st) = newIssue # issues st \<and>
           editingIssueId (createIssue newId st) = Some newId \<and>
           editForm (createIssue newId st) = spreadIssue newIssue \<and>
           issue_id newIssue = newId \<and> title newIssue = ''New Issue'' \<and>
           liveAnnotations newIssue = [] \<and> designAnnotations newIssue = [] \<and>
           severity newIssue = Medium \<and> annotationType newIssue = Some Box"
  using assms
  by (auto simp: createIssue_def startEdit_def cancelEdit_def Let_def spreadIssue_def)

theorem createIssue_prepends_witness:
  "issues (createIssue ''2'' (initialState [ex_issue])) = [ex_new, ex_issue] \<and>
   editingIssueId (createIssue ''2'' (initialState [ex_issue])) = Some ''2''"
proof -
  have noedit: "\<not> truthy (editingIssueId (initialState [ex_issue])) \<or>
           (\<exists>orig. find (\<lambda>i. Some (issue_id i) = editingIssueId (initialState [ex_issue]))
                     (issues (initialState [ex_issue])) = Some orig \<and>
                   \<not> (liveAnnotations orig = [] \<and> designAnnotations orig = [] \<and>
                      title orig = ''New Issue''))"
    by (simp add: initialState_def truthy_def)
  from createIssue_prepends [OF noedit, of "''2''"] obtain newIssue where
    "issues (createIssue ''2'' (initialState [ex_issue])) =
       newIssue # issues (initialState [ex_issue])"
    and "editingIssueId (createIssue ''2'' (initialState [ex_issue])) = Some ''2''"
    by blast
  moreover have "hd (issues (createIssue ''2'' (initialState [ex_issue]))) = ex_new"
    by (simp add: createIssue_ex_new startEdit_issues_noedit initialState_def truthy_def)
  ultimately show ?thesis
    by (simp add: initialState_def)
qed

text \<open>
  Creating an issue with a fresh identifier from a state with nothing under edit and
  cancelling, after any events on the buffer, gives back the committed collection.
\<close>

theorem create_then_cancel:
  assumes "\<not> truthy (editingIssueId st)"
      and "newId \<notin> issue_id ` set (issues st)"
  shows "issues (cancelEdit (foldl bufferStep (createIssue newId st) evs)
                            (foldl bufferStep (createIssue newId st) evs)) = issues st"
proof -
  let ?s = "foldl bufferStep (createIssue newId st) evs"
  have created: "issues (createIssue newId st) =
      \<lparr>issue_id = newId, title = ''New Issue'',
        description = ''Describe the issue...'', box_2d = None,
        design_box_2d = None, liveAnnotations = [], designAnnotations = [],
        designReference = ''Expected behavior...'',
        liveObservation = ''Observed behavior...'',
        suggestion = ''Suggested fix...'', severity = Medium,
        annotationType = Some Box\<rparr> # issues st"
    using assms(1) by (simp add: createIssue_def startEdit_def Let_def)
  have editing: "editingIssueId (createIssue newId st) = Some newId"
    by (simp add: createIssue_def startEdit_def Let_def)
  have i: "issues ?s = issues (createIssue newId st)"
    by (rule foldl_bufferStep_issues)
  have e: "editingIssueId ?s = Some newId"
    by (simp add: foldl_bufferStep_editingIssueId editing)
  have keep: "filter (\<lambda>i. issue_id i \<noteq> newId) (issues st) = issues st"
    using assms(2) by (intro filter_True) auto
  show ?thesis
    by (simp add: cancelEdit_issues i e created keep)
qed

theorem create_then_cancel_witness:
  "issues (cancelEdit (foldl bufferStep (createIssue ''2'' (initialState [ex_issue])) [])
                      (foldl bufferStep (createIssue ''2'' (initialState [ex_issue])) [])) =
   [ex_issue]"
  using create_then_cancel [of "initialState [ex_issue]" "''2''" "[]"]
  by (simp add: initialState_def truthy_def ex_issue_def)

text \<open>
  The exported document computes a box's style as the interactive surface does, and for
  an annotation that is not degenerate both renderers produce the same geometry.
\<close>

theorem renderers_agree:
  "getStyle box = getStyleFromBox box \<and>
   (if coords a = (0, 0, 0, 0) then renderAnnotation a = None
    else renderAnnotation a = Some (hd (exportOverlays [a])))"
  by (cases box; cases "coords a")
     (auto simp: getStyle_def getStyleFromBox_def renderAnnotation_def exportOverlays_def
        createArrow_def createBox_def)

theorem renderers_agree_witness:
  "getStyle (100, 200, 300, 400) = Percent 10 20 20 20 \<and>
   renderAnnotation \<lparr>ann_type = Arrow, coords = (500, 250, 500, 1000)\<rparr> =
     Some (ArrowLine 250 500 1000 500)"
  using renderers_agree [of "(100, 200, 300, 400)"
      "\<lparr>ann_type = Arrow, coords = (500, 250, 500, 1000)\<rparr>"]
  by (simp add: getStyleFromBox_def exportOverlays_def createArrow_def)

end
